theory Spec2Isabelle
  imports Complex_Main "HOL-Library.Sublist" "HOL-Library.Char_ord" "HOL-Library.List_Lexorder"
begin

section \<open>Domain entities (types.ts)\<close>

text \<open>
  The interfaces of \<^verbatim>\<open>types.ts\<close>. JavaScript strings are modelled as \<open>string\<close>
  (the model is exact on ASCII text), numbers that hold ratings as \<open>int\<close>.
\<close>

record Teacher =
  id :: string
  name :: string
  subjects :: "string list"
  classes :: "string list"

text \<open>
  The three report interfaces start with the same five fields; the list code of the three
  report modules reads only these, so they form the common root record.
\<close>

record Report =
  id :: string
  teacherName :: string
  className :: string
  subject :: string
  date :: string

record SupervisionReport = Report +
  rating :: int
  lessonObjectives :: string
  teachingMethods :: string
  learnerEngagement :: string
  classroomManagement :: string
  useOfTeachingAids :: string
  assessmentAndFeedback :: string
  strengths :: string
  weaknesses :: string
  recommendations :: string

datatype WorkCoverage = Complete | Partial | Missing

record BookCheckingReport = Report +
  booksChecked :: string
  workCoverage :: WorkCoverage
  markingRegularity :: int
  feedbackQuality :: int
  learnerNeatness :: int
  exemplaryWorkNoted :: string
  commonStudentErrors :: string
  teacherResponseToFeedback :: string
  comments :: string

record WorkCoverageReport = Report +
  plannedTopics :: string
  completedTopics :: string
  pendingTopics :: string
  remarks :: string
  teacherSignature :: string
  supervisorSignature :: string

text \<open>
  \<^verbatim>\<open>AppSetting.value\<close> has type \<^verbatim>\<open>any\<close>; the settings form only ever writes
  strings. The field is called \<open>val\<close> here, \<open>value\<close> being a keyword.
\<close>

record AppSetting =
  key :: string
  val :: string

text \<open>
  The backup document (SettingsModule.tsx, lines 78-84 and 120-124): an object with five
  properties, each an array of records. A property that is absent from a parsed file reads
  as \<^verbatim>\<open>undefined\<close>, here \<open>None\<close>; an array, also the empty one, is truthy.
\<close>

record backup =
  teachers :: "Teacher list option"
  supervisionReports :: "SupervisionReport list option"
  bookCheckingReports :: "BookCheckingReport list option"
  workCoverageReports :: "WorkCoverageReport list option"
  settings :: "AppSetting list option"

section \<open>The persistent store (db.ts)\<close>

text \<open>
  \<^verbatim>\<open>dbTyped\<close>: five tables, the first four keyed by \<^verbatim>\<open>id\<close>, \<^verbatim>\<open>settings\<close> keyed by
  \<^verbatim>\<open>key\<close>. A table is the list of its records in primary-key order, which is what
  \<^verbatim>\<open>toArray()\<close> returns.
\<close>

record dbTyped =
  teachers :: "Teacher list"
  supervisionReports :: "SupervisionReport list"
  bookCheckingReports :: "BookCheckingReport list"
  workCoverageReports :: "WorkCoverageReport list"
  settings :: "AppSetting list"

datatype store_error = DuplicateKey

text \<open>The invariant of a table: strictly ascending primary keys (so keys are unique).\<close>

definition table_ok :: "('a \<Rightarrow> string) \<Rightarrow> 'a list \<Rightarrow> bool" where
  "table_ok k t = sorted_wrt (\<lambda>a b. k a < k b) t"

definition db_ok :: "dbTyped \<Rightarrow> bool" where
  "db_ok db \<longleftrightarrow>
     table_ok Teacher.id (teachers db) \<and>
     table_ok Report.id (supervisionReports db) \<and>
     table_ok Report.id (bookCheckingReports db) \<and>
     table_ok Report.id (workCoverageReports db) \<and>
     table_ok key (settings db)"

text \<open>
  Modelled from the spec: the table operations of the Dexie library, which is loaded from a
  CDN and is not part of the sources. Section 4.1 of the specification gives their contract:
  \<^verbatim>\<open>toArray(table)\<close>, \<^verbatim>\<open>put(table, record)\<close> (upsert: insert or replace by id),
  \<^verbatim>\<open>bulkAdd(table, records[])\<close> (fails if any id collides, error kind DuplicateKey),
  \<^verbatim>\<open>delete(table, id)\<close>, \<^verbatim>\<open>clear(table)\<close>.
\<close>

definition toArray :: "'a list \<Rightarrow> 'a list" where
  "toArray t = t"

fun put :: "('a \<Rightarrow> string) \<Rightarrow> 'a \<Rightarrow> 'a list \<Rightarrow> 'a list" where
  "put k r [] = [r]"
| "put k r (x # xs) =
     (if k r = k x then r # xs
      else if k r < k x then r # x # xs
      else x # put k r xs)"

fun add :: "('a \<Rightarrow> string) \<Rightarrow> 'a \<Rightarrow> 'a list \<Rightarrow> store_error + 'a list" where
  "add k r [] = Inr [r]"
| "add k r (x # xs) =
     (if k r = k x then Inl DuplicateKey
      else if k r < k x then Inr (r # x # xs)
      else (case add k r xs of Inl e \<Rightarrow> Inl e | Inr ys \<Rightarrow> Inr (x # ys)))"

fun bulkAdd :: "('a \<Rightarrow> string) \<Rightarrow> 'a list \<Rightarrow> 'a list \<Rightarrow> store_error + 'a list" where
  "bulkAdd k [] t = Inr t"
| "bulkAdd k (r # rs) t =
     (case add k r t of Inl e \<Rightarrow> Inl e | Inr t' \<Rightarrow> bulkAdd k rs t')"

definition delete :: "('a \<Rightarrow> string) \<Rightarrow> string \<Rightarrow> 'a list \<Rightarrow> 'a list" where
  "delete k i t = filter (\<lambda>r. k r \<noteq> i) t"

definition clear :: "'a list \<Rightarrow> 'a list" where
  "clear t = []"

text \<open>
  Modelled from the spec: \<^verbatim>\<open>transaction(mode, tables[], body)\<close> of the Dexie library
  (section 4.1): the body executes atomically; if any operation inside throws, all effects
  are rolled back and the failure is surfaced to the caller. The result pairs the outcome
  with the store that is current afterwards.
\<close>

definition transaction ::
  "(dbTyped \<Rightarrow> 'e + dbTyped) \<Rightarrow> dbTyped \<Rightarrow> ('e + unit) \<times> dbTyped" where
  "transaction body db =
     (case body db of Inl e \<Rightarrow> (Inl e, db) | Inr db' \<Rightarrow> (Inr (), db'))"


section \<open>The export routine (pdfUtils.ts)\<close>

text \<open>
  A canvas as the code reads it: \<^verbatim>\<open>canvas.width\<close>, \<^verbatim>\<open>canvas.height\<close> and the
  result of \<^verbatim>\<open>canvas.toDataURL('image/png')\<close>.
\<close>

record canvas =
  width :: nat
  height :: nat
  toDataURL :: string

text \<open>
  The arguments of one \<^verbatim>\<open>pdf.addImage(imgData, 'PNG', x, y, imgWidth, imgHeight)\<close>.
  JavaScript numbers are modelled as real numbers; rounding of the floating-point
  arithmetic is not part of the model.
\<close>

record placed_image =
  imgData :: string
  posX :: real
  posY :: real
  imgWidth :: real
  imgHeight :: real

text \<open>
  A jsPDF document is the list of its pages in order, each page the list of the images
  added to it. \<^verbatim>\<open>new jsPDF(...)\<close> has one blank page, \<^verbatim>\<open>addPage\<close> appends a blank
  page and makes it current, \<^verbatim>\<open>addImage\<close> draws on the current (last) page.
\<close>

type_synonym pdf = "placed_image list list"

definition new_jsPDF :: pdf where
  "new_jsPDF = [[]]"

definition addPage :: "pdf \<Rightarrow> pdf" where
  "addPage doc = doc @ [[]]"

definition addImage :: "placed_image \<Rightarrow> pdf \<Rightarrow> pdf" where
  "addImage img doc = butlast doc @ [last doc @ [img]]"

text \<open>
  Modelled from the spec: the page size that jsPDF reports for
  \<^verbatim>\<open>{orientation: 'p', unit: 'mm', format: 'a4'}\<close> through
  \<^verbatim>\<open>pdf.internal.pageSize.getWidth()\<close> and \<^verbatim>\<open>getHeight()\<close>; the library is not
  part of the sources. Section 4.3: the page is fixed portrait A4 at 210 x 297 mm.
\<close>

definition getWidth :: real where
  "getWidth = 210"

definition getHeight :: real where
  "getHeight = 297"

text \<open>
  \<^verbatim>\<open>generateCanvas\<close> (lines 4-19): \<open>document\<close> is \<^verbatim>\<open>document.getElementById\<close>,
  \<open>html2canvas\<close> the rendering of an element by the library of that name. The console
  message for a missing element is not modelled.
\<close>

definition generateCanvas ::
  "(string \<Rightarrow> 'e option) \<Rightarrow> ('e \<Rightarrow> canvas) \<Rightarrow> string \<Rightarrow> canvas option" where
  "generateCanvas document html2canvas elementId =
     (case document elementId of
        None \<Rightarrow> None
      | Some input \<Rightarrow> Some (html2canvas input))"

text \<open>
  The scaling block that both \<^verbatim>\<open>generatePdfDocument\<close> (lines 25-51) and the loop body
  of \<^verbatim>\<open>generateBulkPdfDocument\<close> (lines 77-93) contain, with the same text. For a
  canvas of width or height 0 the source computes with \<^verbatim>\<open>Infinity\<close> or \<^verbatim>\<open>NaN\<close>, which
  real numbers do not have: the definition embeds the source for positive sizes only.
\<close>

definition scaleToPage :: "real \<Rightarrow> real \<Rightarrow> canvas \<Rightarrow> placed_image" where
  "scaleToPage pdfWidth pdfHeight c =
     (let imgData = toDataURL c;
          canvasWidth = real (width c);
          canvasHeight = real (height c);
          ratio = canvasWidth / canvasHeight;
          imgWidth = pdfWidth;
          imgHeight = imgWidth / ratio;
          (imgWidth, imgHeight) =
            (if imgHeight > pdfHeight then (pdfHeight * ratio, pdfHeight)
             else (imgWidth, imgHeight));
          x = (pdfWidth - imgWidth) / 2;
          y = 0
      in \<lparr>imgData = imgData, posX = x, posY = y, imgWidth = imgWidth, imgHeight = imgHeight\<rparr>)"

text \<open>\<^verbatim>\<open>generatePdfDocument\<close> (lines 21-53).\<close>

definition generatePdfDocument ::
  "(string \<Rightarrow> 'e option) \<Rightarrow> ('e \<Rightarrow> canvas) \<Rightarrow> string \<Rightarrow> pdf option" where
  "generatePdfDocument document html2canvas elementId =
     (case generateCanvas document html2canvas elementId of
        None \<Rightarrow> None
      | Some c \<Rightarrow>
          (let doc = new_jsPDF;
               pdfWidth = getWidth;
               pdfHeight = getHeight
           in Some (addImage (scaleToPage pdfWidth pdfHeight c) doc)))"

text \<open>
  The \<^verbatim>\<open>for\<close> loop of \<^verbatim>\<open>generateBulkPdfDocument\<close> (lines 68-95), from index \<open>i\<close>
  on: the remaining element ids are the second argument.
\<close>

fun bulkLoop ::
  "(string \<Rightarrow> 'e option) \<Rightarrow> ('e \<Rightarrow> canvas) \<Rightarrow> real \<Rightarrow> real \<Rightarrow> nat \<Rightarrow> string list \<Rightarrow> pdf \<Rightarrow> pdf"
  where
  "bulkLoop document html2canvas pdfWidth pdfHeight i [] doc = doc"
| "bulkLoop document html2canvas pdfWidth pdfHeight i (elementId # rest) doc =
     (case generateCanvas document html2canvas elementId of
        None \<Rightarrow> bulkLoop document html2canvas pdfWidth pdfHeight (i + 1) rest doc
      | Some c \<Rightarrow>
          bulkLoop document html2canvas pdfWidth pdfHeight (i + 1) rest
            (addImage (scaleToPage pdfWidth pdfHeight c)
               (if i > 0 then addPage doc else doc)))"

text \<open>\<^verbatim>\<open>generateBulkPdfDocument\<close> (lines 55-98).\<close>

definition generateBulkPdfDocument ::
  "(string \<Rightarrow> 'e option) \<Rightarrow> ('e \<Rightarrow> canvas) \<Rightarrow> string list \<Rightarrow> pdf option" where
  "generateBulkPdfDocument document html2canvas elementIds =
     (if length elementIds = 0 then None
      else Some (bulkLoop document html2canvas getWidth getHeight 0 elementIds new_jsPDF))"

section \<open>Report modules: state and saving\<close>

datatype view = LIST | FORM | DETAIL

text \<open>
  The React state of a report module and of its form component that the handlers below
  read and write, together with two logs of what the user observes: the \<^verbatim>\<open>alert\<close>
  messages shown and the documents saved to files (\<^verbatim>\<open>pdf.save(name)\<close>).
\<close>

record module_state =
  view :: view
  selectedReportId :: "string option"
  searchQuery :: string
  sortBy :: string
  filterStartDate :: string
  filterEndDate :: string
  isBulkExporting :: bool
  errors :: "(string \<times> string) list"
  alerts :: "string list"
  savedFiles :: "(string \<times> pdf) list"

text \<open>\<^verbatim>\<open>handleSave\<close> of SupervisionModule.tsx, lines 307-311.\<close>

definition handleSave ::
  "SupervisionReport \<Rightarrow> dbTyped \<times> module_state \<Rightarrow> dbTyped \<times> module_state" where
  "handleSave report s =
     (case s of (db, m) \<Rightarrow>
        (db\<lparr>supervisionReports := put Report.id report (supervisionReports db)\<rparr>,
         m\<lparr>view := LIST, selectedReportId := None\<rparr>))"

text \<open>\<^verbatim>\<open>handleSave\<close> of the book checking module (part_003, lines 281-285).\<close>

definition handleSave_bookChecking ::
  "BookCheckingReport \<Rightarrow> dbTyped \<times> module_state \<Rightarrow> dbTyped \<times> module_state" where
  "handleSave_bookChecking report s =
     (case s of (db, m) \<Rightarrow>
        (db\<lparr>bookCheckingReports := put Report.id report (bookCheckingReports db)\<rparr>,
         m\<lparr>view := LIST, selectedReportId := None\<rparr>))"

text \<open>\<^verbatim>\<open>handleSave\<close> of the work coverage module (part_005, lines 309-313).\<close>

definition handleSave_workCoverage ::
  "WorkCoverageReport \<Rightarrow> dbTyped \<times> module_state \<Rightarrow> dbTyped \<times> module_state" where
  "handleSave_workCoverage report s =
     (case s of (db, m) \<Rightarrow>
        (db\<lparr>workCoverageReports := put Report.id report (workCoverageReports db)\<rparr>,
         m\<lparr>view := LIST, selectedReportId := None\<rparr>))"

section \<open>The report forms: validation and submission\<close>

text \<open>
  \<^verbatim>\<open>String.prototype.trim\<close> removes white space and line terminators from both ends;
  in ASCII these are TAB, LF, VT, FF, CR and SP.
\<close>

definition isWhiteSpace :: "char \<Rightarrow> bool" where
  "isWhiteSpace c \<longleftrightarrow>
     c \<in> set [CHR 0x09, CHR 0x0A, CHR 0x0B, CHR 0x0C, CHR 0x0D, CHR 0x20]"

definition trim :: "string \<Rightarrow> string" where
  "trim s = rev (dropWhile isWhiteSpace (rev (dropWhile isWhiteSpace s)))"

text \<open>
  \<^verbatim>\<open>Date.now().toString()\<close>: the decimal digits of an integer number of milliseconds,
  with a minus sign for a clock set before 1970.
\<close>

definition digit :: "nat \<Rightarrow> char" where
  "digit d = ''0123456789'' ! d"

fun digits :: "nat \<Rightarrow> string" where
  "digits n = (if n < 10 then [digit n] else digits (n div 10) @ [digit (n mod 10)])"

declare digits.simps [simp del]

definition toString :: "int \<Rightarrow> string" where
  "toString i = (if i < 0 then CHR ''-'' # digits (nat (- i)) else digits (nat i))"

text \<open>
  One line \<^verbatim>\<open>if (cond) newErrors.field = message\<close> of a \<^verbatim>\<open>validateForm\<close>: the
  error object is the list of its entries in the order they were assigned.
\<close>

definition required :: "bool \<Rightarrow> string \<Rightarrow> string \<Rightarrow> (string \<times> string) list" where
  "required missing field message = (if missing then [(field, message)] else [])"

text \<open>
  \<^verbatim>\<open>emptyForm\<close> and \<^verbatim>\<open>validateForm\<close> of SupervisionModule.tsx, lines 10-12 and
  36-53. The first component of the result is the value given to \<^verbatim>\<open>setErrors\<close>, the
  second the boolean returned.
\<close>

definition emptyForm :: SupervisionReport where
  "emptyForm = \<lparr>Report.id = [], teacherName = [], className = [], subject = [],
     date = [], rating = 0, lessonObjectives = [], teachingMethods = [],
     learnerEngagement = [], classroomManagement = [], useOfTeachingAids = [],
     assessmentAndFeedback = [], strengths = [], weaknesses = [],
     recommendations = []\<rparr>"

definition validateForm :: "SupervisionReport \<Rightarrow> (string \<times> string) list \<times> bool" where
  "validateForm formData =
     (let newErrors =
        required (trim (teacherName formData) = []) ''teacherName''
          ''Teacher name is required.'' @
        required (trim (className formData) = []) ''className'' ''Class is required.'' @
        required (trim (subject formData) = []) ''subject'' ''Subject is required.'' @
        required (date formData = []) ''date'' ''Date is required.'' @
        required (trim (lessonObjectives formData) = []) ''lessonObjectives''
          ''Lesson objectives are required.'' @
        required (trim (teachingMethods formData) = []) ''teachingMethods''
          ''Teaching methods are required.'' @
        required (trim (learnerEngagement formData) = []) ''learnerEngagement''
          ''Learner engagement is required.'' @
        required (trim (classroomManagement formData) = []) ''classroomManagement''
          ''Classroom management is required.'' @
        required (trim (useOfTeachingAids formData) = []) ''useOfTeachingAids''
          ''Use of teaching aids is required.'' @
        required (trim (assessmentAndFeedback formData) = []) ''assessmentAndFeedback''
          ''Assessment and feedback are required.'' @
        required (trim (strengths formData) = []) ''strengths'' ''Strengths are required.'' @
        required (trim (weaknesses formData) = []) ''weaknesses''
          ''Areas for improvement are required.'' @
        required (trim (recommendations formData) = []) ''recommendations''
          ''Recommendations are required.''
      in (newErrors, length newErrors = 0))"

text \<open>
  \<^verbatim>\<open>handleSubmit\<close> of SupervisionModule.tsx, lines 55-62; \<open>now\<close> is the value of
  \<^verbatim>\<open>Date.now()\<close>, and \<^verbatim>\<open>onSave\<close> is the module's \<^verbatim>\<open>handleSave\<close> (line 388).
\<close>

definition handleSubmit ::
  "int \<Rightarrow> SupervisionReport \<Rightarrow> dbTyped \<times> module_state \<Rightarrow> dbTyped \<times> module_state" where
  "handleSubmit now formData s =
     (case s of (db, m) \<Rightarrow>
        (case validateForm formData of (newErrors, valid) \<Rightarrow>
           (if valid
            then handleSave
                   (formData\<lparr>Report.id :=
                      (if Report.id formData \<noteq> [] then Report.id formData else toString now)\<rparr>)
                   (db, m\<lparr>errors := newErrors\<rparr>)
            else (db, m\<lparr>errors := newErrors,
                         alerts := alerts m @ [''Please fill out all required fields.'']\<rparr>))))"

text \<open>
  The book checking form (part_003, lines 37-59). \<^verbatim>\<open>parseInt\<close> is the built-in of the
  platform, taken as a parameter; \<open>None\<close> is \<^verbatim>\<open>NaN\<close>, for which \<^verbatim>\<open><= 0\<close> is false.
\<close>

definition validateForm_bookChecking ::
  "(string \<Rightarrow> int option) \<Rightarrow> BookCheckingReport \<Rightarrow> (string \<times> string) list \<times> bool" where
  "validateForm_bookChecking parseInt formData =
     (let newErrors =
        required (trim (teacherName formData) = []) ''teacherName''
          ''Teacher name is required.'' @
        required (trim (className formData) = []) ''className'' ''Class is required.'' @
        required (trim (subject formData) = []) ''subject'' ''Subject is required.'' @
        required (date formData = []) ''date'' ''Date is required.'' @
        required (trim (booksChecked formData) = [] \<or>
                  (case parseInt (booksChecked formData) of None \<Rightarrow> False | Some n \<Rightarrow> n \<le> 0))
          ''booksChecked'' ''Please enter a valid number of books.'' @
        required (markingRegularity formData = 0) ''markingRegularity'' ''Rating is required.'' @
        required (feedbackQuality formData = 0) ''feedbackQuality'' ''Rating is required.'' @
        required (learnerNeatness formData = 0) ''learnerNeatness'' ''Rating is required.''
      in (newErrors, length newErrors = 0))"

definition handleSubmit_bookChecking ::
  "(string \<Rightarrow> int option) \<Rightarrow> int \<Rightarrow> BookCheckingReport \<Rightarrow>
     dbTyped \<times> module_state \<Rightarrow> dbTyped \<times> module_state" where
  "handleSubmit_bookChecking parseInt now formData s =
     (case s of (db, m) \<Rightarrow>
        (case validateForm_bookChecking parseInt formData of (newErrors, valid) \<Rightarrow>
           (if valid
            then handleSave_bookChecking
                   (formData\<lparr>Report.id :=
                      (if Report.id formData \<noteq> [] then Report.id formData else toString now)\<rparr>)
                   (db, m\<lparr>errors := newErrors\<rparr>)
            else (db, m\<lparr>errors := newErrors,
                         alerts := alerts m @
                           [''Please fill out all required fields and provide ratings.'']\<rparr>))))"

text \<open>The work coverage form (part_005, lines 37-58).\<close>

definition validateForm_workCoverage ::
  "WorkCoverageReport \<Rightarrow> (string \<times> string) list \<times> bool" where
  "validateForm_workCoverage formData =
     (let newErrors =
        required (trim (teacherName formData) = []) ''teacherName''
          ''Teacher name is required.'' @
        required (trim (className formData) = []) ''className'' ''Class is required.'' @
        required (trim (subject formData) = []) ''subject'' ''Subject is required.'' @
        required (date formData = []) ''date'' ''Date is required.'' @
        required (trim (plannedTopics formData) = []) ''plannedTopics''
          ''Planned topics are required.'' @
        required (trim (completedTopics formData) = []) ''completedTopics''
          ''Completed topics are required.'' @
        required (teacherSignature formData = []) ''teacherSignature''
          ''Teacher signature is required.'' @
        required (supervisorSignature formData = []) ''supervisorSignature''
          ''Supervisor signature is required.''
      in (newErrors, length newErrors = 0))"

definition handleSubmit_workCoverage ::
  "int \<Rightarrow> WorkCoverageReport \<Rightarrow> dbTyped \<times> module_state \<Rightarrow> dbTyped \<times> module_state" where
  "handleSubmit_workCoverage now formData s =
     (case s of (db, m) \<Rightarrow>
        (case validateForm_workCoverage formData of (newErrors, valid) \<Rightarrow>
           (if valid
            then handleSave_workCoverage
                   (formData\<lparr>Report.id :=
                      (if Report.id formData \<noteq> [] then Report.id formData else toString now)\<rparr>)
                   (db, m\<lparr>errors := newErrors\<rparr>)
            else (db, m\<lparr>errors := newErrors,
                         alerts := alerts m @
                           [''Please fill out all required fields, including signatures.'']\<rparr>))))"

text \<open>Sample values: an empty store, a module showing its form, complete reports.\<close>

definition emptyDb :: dbTyped where
  "emptyDb = \<lparr>teachers = [], supervisionReports = [], bookCheckingReports = [],
     workCoverageReports = [], settings = []\<rparr>"

definition formOpen :: module_state where
  "formOpen = \<lparr>view = FORM, selectedReportId = None, searchQuery = [],
     sortBy = ''date-desc'', filterStartDate = [], filterEndDate = [],
     isBulkExporting = False, errors = [], alerts = [], savedFiles = []\<rparr>"

definition sampleSupervision :: "string \<Rightarrow> string \<Rightarrow> string \<Rightarrow> string \<Rightarrow> SupervisionReport" where
  "sampleSupervision i t s d = \<lparr>Report.id = i, teacherName = t, className = ''5A'',
     subject = s, date = d, rating = 4, lessonObjectives = ''o'',
     teachingMethods = ''m'', learnerEngagement = ''e'', classroomManagement = ''c'',
     useOfTeachingAids = ''a'', assessmentAndFeedback = ''f'', strengths = ''s'',
     weaknesses = ''w'', recommendations = ''r''\<rparr>"

definition sampleBookChecking :: "string \<Rightarrow> string \<Rightarrow> BookCheckingReport" where
  "sampleBookChecking i t = \<lparr>Report.id = i, teacherName = t, className = ''5A'',
     subject = ''Math'', date = ''2024-03-01'', booksChecked = ''12'',
     workCoverage = Partial, markingRegularity = 3, feedbackQuality = 4,
     learnerNeatness = 5, exemplaryWorkNoted = [], commonStudentErrors = [],
     teacherResponseToFeedback = [], comments = []\<rparr>"

definition sampleWorkCoverage :: "string \<Rightarrow> string \<Rightarrow> WorkCoverageReport" where
  "sampleWorkCoverage i t = \<lparr>Report.id = i, teacherName = t, className = ''5A'',
     subject = ''Math'', date = ''2024-03-01'', plannedTopics = ''p'',
     completedTopics = ''c'', pendingTopics = [], remarks = [],
     teacherSignature = ''data:t'', supervisorSignature = ''data:s''\<rparr>"


section \<open>The report list: filtering and sorting\<close>

text \<open>
  \<^verbatim>\<open>String.prototype.toLowerCase\<close> on ASCII text, and \<^verbatim>\<open>s.includes(q)\<close>: the
  string \<open>q\<close> starts at some position of \<open>s\<close>.
\<close>

definition toLowerCase :: "string \<Rightarrow> string" where
  "toLowerCase s =
     map (\<lambda>c. case map_of (zip ''ABCDEFGHIJKLMNOPQRSTUVWXYZ'' ''abcdefghijklmnopqrstuvwxyz'') c of
                 None \<Rightarrow> c
               | Some l \<Rightarrow> l) s"

fun str_includes :: "string \<Rightarrow> string \<Rightarrow> bool" where
  "str_includes [] q = (q = [])"
| "str_includes (c # s) q = (prefix q (c # s) \<or> str_includes s q)"

text \<open>
  Numbers that may be \<^verbatim>\<open>NaN\<close> are \<open>int option\<close> with \<open>None\<close> for \<^verbatim>\<open>NaN\<close>: the time
  value of an invalid \<^verbatim>\<open>Date\<close>. A comparison with \<^verbatim>\<open>NaN\<close> is false, a difference
  with \<^verbatim>\<open>NaN\<close> is \<^verbatim>\<open>NaN\<close>.
\<close>

definition num_ge :: "int option \<Rightarrow> int option \<Rightarrow> bool" where
  "num_ge a b = (case (a, b) of (Some u, Some v) \<Rightarrow> u \<ge> v | _ \<Rightarrow> False)"

definition num_le :: "int option \<Rightarrow> int option \<Rightarrow> bool" where
  "num_le a b = (case (a, b) of (Some u, Some v) \<Rightarrow> u \<le> v | _ \<Rightarrow> False)"

definition num_minus :: "int option \<Rightarrow> int option \<Rightarrow> int option" where
  "num_minus a b = (case (a, b) of (Some u, Some v) \<Rightarrow> Some (u - v) | _ \<Rightarrow> None)"

text \<open>
  \<^verbatim>\<open>Array.prototype.sort(comparefn)\<close> of the platform: the sort is stable, an element
  \<open>a\<close> stays before \<open>b\<close> unless \<open>comparefn a b > 0\<close>, and a comparator result \<^verbatim>\<open>NaN\<close>
  counts as \<open>0\<close>. For a consistent comparator these rules determine the result, which the
  insertion sort below computes. (With results \<^verbatim>\<open>NaN\<close> a comparator need not be
  consistent, and then the platform leaves the order open.)
\<close>

definition sortCompare :: "('a \<Rightarrow> 'a \<Rightarrow> int option) \<Rightarrow> 'a \<Rightarrow> 'a \<Rightarrow> int" where
  "sortCompare comparefn a b = (case comparefn a b of None \<Rightarrow> 0 | Some v \<Rightarrow> v)"

fun insert_sorted :: "('a \<Rightarrow> 'a \<Rightarrow> int option) \<Rightarrow> 'a \<Rightarrow> 'a list \<Rightarrow> 'a list" where
  "insert_sorted comparefn a [] = [a]"
| "insert_sorted comparefn a (b # bs) =
     (if sortCompare comparefn a b \<le> 0 then a # b # bs
      else b # insert_sorted comparefn a bs)"

definition array_sort :: "('a \<Rightarrow> 'a \<Rightarrow> int option) \<Rightarrow> 'a list \<Rightarrow> 'a list" where
  "array_sort comparefn xs = foldr (insert_sorted comparefn) xs []"

text \<open>
  The comparator of lines 346-356. \<open>getTime s\<close> is \<^verbatim>\<open>new Date(s).getTime()\<close> and
  \<open>localeCompare\<close> is \<^verbatim>\<open>String.prototype.localeCompare\<close>, both of the platform.
\<close>

definition compareReports ::
  "(string \<Rightarrow> int option) \<Rightarrow> (string \<Rightarrow> string \<Rightarrow> int) \<Rightarrow> module_state \<Rightarrow>
     'a Report_scheme \<Rightarrow> 'a Report_scheme \<Rightarrow> int option" where
  "compareReports getTime localeCompare m a b =
     (if sortBy m = ''date-asc'' then num_minus (getTime (date a)) (getTime (date b))
      else if sortBy m = ''teacher-asc''
        then Some (localeCompare (teacherName a) (teacherName b))
      else num_minus (getTime (date b)) (getTime (date a)))"

text \<open>
  \<^verbatim>\<open>filteredAndSortedReports\<close> (SupervisionModule.tsx, lines 327-357; the book
  checking and work coverage modules contain the same text, part_003 lines 301-331 and
  part_005 lines 329-359). It reads only the five common fields of a report.
\<close>

definition filteredAndSortedReports ::
  "(string \<Rightarrow> int option) \<Rightarrow> (string \<Rightarrow> string \<Rightarrow> int) \<Rightarrow>
     'a Report_scheme list \<Rightarrow> module_state \<Rightarrow> 'a Report_scheme list" where
  "filteredAndSortedReports getTime localeCompare reports m =
     (let filtered = reports;
          filtered =
            (if searchQuery m \<noteq> []
             then filter (\<lambda>report.
                    str_includes (toLowerCase (teacherName report)) (toLowerCase (searchQuery m)) \<or>
                    str_includes (toLowerCase (subject report)) (toLowerCase (searchQuery m)))
                  filtered
             else filtered);
          filtered =
            (if filterStartDate m \<noteq> []
             then (let startDate = getTime (filterStartDate m @ ''T00:00:00'')
                   in filter (\<lambda>report.
                        num_ge (getTime (date report @ ''T00:00:00'')) startDate) filtered)
             else filtered);
          filtered =
            (if filterEndDate m \<noteq> []
             then (let endDate = getTime (filterEndDate m @ ''T00:00:00'')
                   in filter (\<lambda>report.
                        num_le (getTime (date report @ ''T00:00:00'')) endDate) filtered)
             else filtered)
      in array_sort (compareReports getTime localeCompare m) filtered)"

text \<open>
  The filter and the order as the specification words them. A report is kept iff, when the
  query is not empty, the query is a case-insensitive substring of the teacher name or of
  the subject, and, when a start or end date is set, the date of the report is within the
  range, both boundary dates included. Dates are compared as the instants of their midnight.
\<close>

definition spec_matches_search :: "string \<Rightarrow> 'a Report_scheme \<Rightarrow> bool" where
  "spec_matches_search q r \<longleftrightarrow>
     sublist (toLowerCase q) (toLowerCase (teacherName r)) \<or>
     sublist (toLowerCase q) (toLowerCase (subject r))"

definition midnight :: "(string \<Rightarrow> int option) \<Rightarrow> string \<Rightarrow> int option" where
  "midnight getTime d = getTime (d @ ''T00:00:00'')"

definition spec_on_or_after :: "(string \<Rightarrow> int option) \<Rightarrow> string \<Rightarrow> 'a Report_scheme \<Rightarrow> bool" where
  "spec_on_or_after getTime start r \<longleftrightarrow>
     (case (midnight getTime start, midnight getTime (date r)) of
        (Some s, Some t) \<Rightarrow> s \<le> t
      | _ \<Rightarrow> False)"

definition spec_on_or_before :: "(string \<Rightarrow> int option) \<Rightarrow> string \<Rightarrow> 'a Report_scheme \<Rightarrow> bool" where
  "spec_on_or_before getTime stop r \<longleftrightarrow>
     (case (midnight getTime (date r), midnight getTime stop) of
        (Some t, Some e) \<Rightarrow> t \<le> e
      | _ \<Rightarrow> False)"

definition spec_keeps :: "(string \<Rightarrow> int option) \<Rightarrow> module_state \<Rightarrow> 'a Report_scheme \<Rightarrow> bool" where
  "spec_keeps getTime m r \<longleftrightarrow>
     (searchQuery m = [] \<or> spec_matches_search (searchQuery m) r) \<and>
     (filterStartDate m = [] \<or> spec_on_or_after getTime (filterStartDate m) r) \<and>
     (filterEndDate m = [] \<or> spec_on_or_before getTime (filterEndDate m) r)"

text \<open>
  The order of the selected key: date ascending, teacher name ascending (in the order of
  \<open>localeCompare\<close>), and date descending for every other value of \<open>sortBy\<close>.
\<close>

definition spec_in_order ::
  "(string \<Rightarrow> int option) \<Rightarrow> (string \<Rightarrow> string \<Rightarrow> int) \<Rightarrow> string \<Rightarrow>
     'a Report_scheme \<Rightarrow> 'a Report_scheme \<Rightarrow> bool" where
  "spec_in_order getTime localeCompare selected a b =
     (if selected = ''date-asc'' then num_le (getTime (date a)) (getTime (date b))
      else if selected = ''teacher-asc''
        then localeCompare (teacherName a) (teacherName b) \<le> 0
      else num_ge (getTime (date a)) (getTime (date b)))"

text \<open>
  A comparator of strings is consistent when it is total and transitive; the date
  comparators are consistent on valid dates.
\<close>

definition consistent :: "(string \<Rightarrow> string \<Rightarrow> int) \<Rightarrow> bool" where
  "consistent localeCompare \<longleftrightarrow>
     (\<forall>a b. localeCompare a b \<le> 0 \<or> localeCompare b a \<le> 0) \<and>
     (\<forall>a b c. localeCompare a b \<le> 0 \<and> localeCompare b c \<le> 0 \<longrightarrow> localeCompare a c \<le> 0)"

section \<open>Bulk export of the report list\<close>

text \<open>
  \<^verbatim>\<open>handleBulkExport\<close> (SupervisionModule.tsx, lines 359-365). The button that
  calls it is disabled while the list is empty (line 401); the handler checks again.
\<close>

definition handleBulkExport ::
  "(string \<Rightarrow> int option) \<Rightarrow> (string \<Rightarrow> string \<Rightarrow> int) \<Rightarrow>
     SupervisionReport list \<Rightarrow> module_state \<Rightarrow> module_state" where
  "handleBulkExport getTime localeCompare reports m =
     (if length (filteredAndSortedReports getTime localeCompare reports m) = 0
      then m\<lparr>alerts := alerts m @ [''No reports to export.'']\<rparr>
      else m\<lparr>isBulkExporting := True\<rparr>)"

text \<open>
  The effect of lines 367-383, run once the settle delay has passed: it does nothing
  unless \<^verbatim>\<open>isBulkExporting\<close> is set. \<open>today\<close> is
  \<^verbatim>\<open>new Date().toISOString().split('T')[0]\<close>.
\<close>

definition performExport ::
  "(string \<Rightarrow> 'e option) \<Rightarrow> ('e \<Rightarrow> canvas) \<Rightarrow> (string \<Rightarrow> int option) \<Rightarrow>
     (string \<Rightarrow> string \<Rightarrow> int) \<Rightarrow> string \<Rightarrow> SupervisionReport list \<Rightarrow>
     module_state \<Rightarrow> module_state" where
  "performExport document html2canvas getTime localeCompare today reports m =
     (if \<not> isBulkExporting m then m
      else
        (let elementIds =
               map (\<lambda>r. ''bulk-pdf-supervision-'' @ Report.id r)
                 (filteredAndSortedReports getTime localeCompare reports m);
             m' = (case generateBulkPdfDocument document html2canvas elementIds of
                     Some doc \<Rightarrow>
                       m\<lparr>savedFiles := savedFiles m @
                           [(''Supervision_Reports_Bulk_Export_'' @ today @ ''.pdf'', doc)]\<rparr>
                   | None \<Rightarrow> m\<lparr>alerts := alerts m @ [''Failed to generate bulk PDF.'']\<rparr>)
         in m'\<lparr>isBulkExporting := False\<rparr>))"

section \<open>Backup: export and import of all data (SettingsModule.tsx)\<close>

text \<open>The argument of \<^verbatim>\<open>showFeedback(message, type)\<close>.\<close>

datatype feedback = Success string | Failure string

text \<open>
  \<^verbatim>\<open>handleExportData\<close> (lines 76-100). \<open>stringify\<close> is \<^verbatim>\<open>JSON.stringify\<close> of the
  platform and \<open>today\<close> is \<^verbatim>\<open>new Date().toISOString().split('T')[0]\<close>. The result is
  the downloaded file (name and content) and the feedback shown.
\<close>

definition handleExportData ::
  "(backup \<Rightarrow> string) \<Rightarrow> string \<Rightarrow> dbTyped \<Rightarrow> (string \<times> string) \<times> feedback" where
  "handleExportData stringify today db =
     (let data = \<lparr>backup.teachers = Some (toArray (teachers db)),
                  backup.supervisionReports = Some (toArray (supervisionReports db)),
                  backup.bookCheckingReports = Some (toArray (bookCheckingReports db)),
                  backup.workCoverageReports = Some (toArray (workCoverageReports db)),
                  backup.settings = Some (toArray (settings db))\<rparr>;
          jsonString = stringify data
      in ((''teacher-monitor-backup-'' @ today @ ''.json'', jsonString),
          Success ''Data exported successfully.''))"

text \<open>
  What \<^verbatim>\<open>JSON.parse\<close> returns for the text of a file: \<^verbatim>\<open>null\<close>, on which reading a
  property throws a \<^verbatim>\<open>TypeError\<close>, or a value whose five properties are read (every
  other primitive value and every array reads as the document with no property present).
\<close>

datatype json_value = JsonNull | JsonObject backup

datatype import_error = TypeError | StoreError store_error

text \<open>One line \<^verbatim>\<open>if (data.t) await dbTyped.t.bulkAdd(data.t)\<close> (lines 120-124).\<close>

definition bulkAddIfPresent ::
  "('a \<Rightarrow> string) \<Rightarrow> 'a list option \<Rightarrow> 'a list \<Rightarrow> import_error + 'a list" where
  "bulkAddIfPresent k field t =
     (case field of
        None \<Rightarrow> Inr t
      | Some records \<Rightarrow>
          (case bulkAdd k records t of Inl e \<Rightarrow> Inl (StoreError e) | Inr t' \<Rightarrow> Inr t'))"

text \<open>
  The body of the transaction (lines 118-124): all five tables are cleared, then the arrays
  present in the file are added, one table after the other; the first failure ends the body.
\<close>

definition importBody :: "json_value \<Rightarrow> dbTyped \<Rightarrow> import_error + dbTyped" where
  "importBody parsed db =
     (let db0 = \<lparr>teachers = clear (teachers db),
                 supervisionReports = clear (supervisionReports db),
                 bookCheckingReports = clear (bookCheckingReports db),
                 workCoverageReports = clear (workCoverageReports db),
                 settings = clear (settings db)\<rparr>
      in case parsed of
           JsonNull \<Rightarrow> Inl TypeError
         | JsonObject d \<Rightarrow>
            (case bulkAddIfPresent Teacher.id (backup.teachers d) (teachers db0) of
               Inl e \<Rightarrow> Inl e
             | Inr t1 \<Rightarrow>
            (case bulkAddIfPresent Report.id (backup.supervisionReports d)
                    (supervisionReports db0) of
               Inl e \<Rightarrow> Inl e
             | Inr t2 \<Rightarrow>
            (case bulkAddIfPresent Report.id (backup.bookCheckingReports d)
                    (bookCheckingReports db0) of
               Inl e \<Rightarrow> Inl e
             | Inr t3 \<Rightarrow>
            (case bulkAddIfPresent Report.id (backup.workCoverageReports d)
                    (workCoverageReports db0) of
               Inl e \<Rightarrow> Inl e
             | Inr t4 \<Rightarrow>
            (case bulkAddIfPresent key (backup.settings d) (settings db0) of
               Inl e \<Rightarrow> Inl e
             | Inr t5 \<Rightarrow>
                 Inr \<lparr>teachers = t1, supervisionReports = t2, bookCheckingReports = t3,
                      workCoverageReports = t4, settings = t5\<rparr>))))))"

text \<open>
  \<^verbatim>\<open>handleImportData\<close> (lines 102-137). \<open>file\<close> is the text of the chosen file if one
  was chosen, \<open>confirmed\<close> the answer to \<^verbatim>\<open>window.confirm\<close>, and \<open>parse\<close> is
  \<^verbatim>\<open>JSON.parse\<close> of the platform, \<open>None\<close> when it throws. The result is the store
  afterwards and the feedback shown, if any.
\<close>

definition handleImportData ::
  "(string \<Rightarrow> json_value option) \<Rightarrow> string option \<Rightarrow> bool \<Rightarrow> dbTyped \<Rightarrow>
     dbTyped \<times> feedback option" where
  "handleImportData parse file confirmed db =
     (case file of
        None \<Rightarrow> (db, None)
      | Some text \<Rightarrow>
          if \<not> confirmed then (db, None)
          else
            (case parse text of
               None \<Rightarrow>
                 (db, Some (Failure
                    ''Failed to import data. Please ensure the file is a valid backup.''))
             | Some parsed \<Rightarrow>
                 (case transaction (importBody parsed) db of
                    (Inl e, db') \<Rightarrow>
                      (db', Some (Failure
                         ''Failed to import data. Please ensure the file is a valid backup.''))
                  | (Inr u, db') \<Rightarrow>
                      (db', Some (Success
                         ''Data imported successfully! The application will now reload.'')))))"

section \<open>The reactive query bridge (useLocalStorage.ts)\<close>

text \<open>
  The state that \<^verbatim>\<open>useLiveQuery\<close> owns: \<^verbatim>\<open>data\<close> (\<open>None\<close> is \<^verbatim>\<open>undefined\<close>),
  whether the effect has subscribed, and the lines written with \<^verbatim>\<open>console.error\<close>.
\<close>

record 'a live_query =
  data :: "'a option"
  subscribed :: bool
  console :: "string list"

text \<open>What the live query of the Dexie library sends to its subscriber.\<close>

datatype 'a notification = Next 'a | Error string

text \<open>Line 19: \<^verbatim>\<open>useState<T | undefined>(undefined)\<close>.\<close>

definition useLiveQuery_initial :: "'a live_query" where
  "useLiveQuery_initial = \<lparr>data = None, subscribed = False, console = []\<rparr>"

text \<open>The effect (lines 21-38); \<open>dexie\<close> tells whether \<^verbatim>\<open>window.Dexie\<close> is there.\<close>

definition useLiveQuery_effect :: "bool \<Rightarrow> 'a live_query \<Rightarrow> 'a live_query" where
  "useLiveQuery_effect dexie s =
     (if \<not> dexie
      then s\<lparr>console := console s @
             [''Dexie is not available on the window object. Make sure it is loaded.'']\<rparr>
      else s\<lparr>subscribed := True\<rparr>)"

text \<open>The two callbacks given to \<^verbatim>\<open>subscribe\<close> (lines 31-34).\<close>

definition deliver :: "'a notification \<Rightarrow> 'a live_query \<Rightarrow> 'a live_query" where
  "deliver n s =
     (if \<not> subscribed s then s
      else case n of
             Next result \<Rightarrow> s\<lparr>data := Some result\<rparr>
           | Error error \<Rightarrow> s\<lparr>console := console s @ [''useLiveQuery error: '' @ error]\<rparr>)"

text \<open>
  What happens to a mounted hook: the live query notifies its subscriber, or the
  dependencies change, upon which the cleanup of the effect unsubscribes (line 36) and the
  effect runs again (line 38). Neither of the two touches \<^verbatim>\<open>data\<close>.
\<close>

datatype 'a event = Notified "'a notification" | DependenciesChanged

definition cleanup :: "'a live_query \<Rightarrow> 'a live_query" where
  "cleanup s = s\<lparr>subscribed := False\<rparr>"

definition hook_step :: "bool \<Rightarrow> 'a event \<Rightarrow> 'a live_query \<Rightarrow> 'a live_query" where
  "hook_step dexie ev s =
     (case ev of
        Notified n \<Rightarrow> deliver n s
      | DependenciesChanged \<Rightarrow> useLiveQuery_effect dexie (cleanup s))"

text \<open>The value the hook returns (line 40) after the events \<open>evs\<close>, in order.\<close>

definition useLiveQuery :: "bool \<Rightarrow> 'a event list \<Rightarrow> 'a option" where
  "useLiveQuery dexie evs =
     data (fold (hook_step dexie) evs (useLiveQuery_effect dexie useLiveQuery_initial))"

section \<open>Sample values\<close>

definition sampleDb :: dbTyped where
  "sampleDb = \<lparr>teachers =
       [\<lparr>Teacher.id = ''1'', name = ''Ann'', subjects = [''Math''], classes = [''5A'']\<rparr>],
     supervisionReports =
       [sampleSupervision ''17'' ''Ann'' ''Math'' ''2024-03-01'',
        sampleSupervision ''18'' ''Bob'' ''Art'' ''2024-02-01''],
     bookCheckingReports = [sampleBookChecking ''21'' ''Ann''],
     workCoverageReports = [sampleWorkCoverage ''31'' ''Ann''],
     settings = [\<lparr>key = ''schoolName'', val = ''Hill School''\<rparr>]\<rparr>"

definition sampleBackup :: backup where
  "sampleBackup = \<lparr>backup.teachers = Some (teachers sampleDb),
     backup.supervisionReports = Some (supervisionReports sampleDb),
     backup.bookCheckingReports = Some (bookCheckingReports sampleDb),
     backup.workCoverageReports = Some (workCoverageReports sampleDb),
     backup.settings = Some (settings sampleDb)\<rparr>"

text \<open>A document in which two supervision reports have the same id.\<close>

definition duplicateBackup :: backup where
  "duplicateBackup = \<lparr>backup.teachers = Some (teachers sampleDb),
     backup.supervisionReports =
       Some [sampleSupervision ''17'' ''Ann'' ''Math'' ''2024-03-01'',
             sampleSupervision ''17'' ''Bob'' ''Art'' ''2024-02-01''],
     backup.bookCheckingReports = None,
     backup.workCoverageReports = None,
     backup.settings = None\<rparr>"

text \<open>A parser that knows three texts and rejects every other one.\<close>

definition sampleParse :: "string \<Rightarrow> json_value option" where
  "sampleParse s =
     (if s = ''null'' then Some JsonNull
      else if s = ''{backup}'' then Some (JsonObject sampleBackup)
      else if s = ''{duplicate}'' then Some (JsonObject duplicateBackup)
      else None)"

text \<open>
  A clock for three dates (the time values of their midnights, for the date alone and with
  the suffix that the filter appends), and a comparison of strings by code units.
\<close>

definition sampleGetTime :: "string \<Rightarrow> int option" where
  "sampleGetTime = map_of
     [(''2024-02-01'', 1706745600000), (''2024-02-01T00:00:00'', 1706745600000),
      (''2024-03-01'', 1709251200000), (''2024-03-01T00:00:00'', 1709251200000),
      (''2024-04-01'', 1711929600000), (''2024-04-01T00:00:00'', 1711929600000)]"

definition sampleLocaleCompare :: "string \<Rightarrow> string \<Rightarrow> int" where
  "sampleLocaleCompare a b = (if a < b then - 1 else if a = b then 0 else 1)"

definition sampleReports :: "SupervisionReport list" where
  "sampleReports =
     [sampleSupervision ''17'' ''Ann'' ''Math'' ''2024-03-01'',
      sampleSupervision ''18'' ''Bob'' ''Art'' ''2024-02-01'',
      sampleSupervision ''19'' ''Cy'' ''Math'' ''2024-04-01'']"

text \<open>The list view with the query "A", the range 1 February to 1 March, oldest first.\<close>

definition sampleList :: module_state where
  "sampleList = \<lparr>view = LIST, selectedReportId = None, searchQuery = ''A'',
     sortBy = ''date-asc'', filterStartDate = ''2024-02-01'', filterEndDate = ''2024-03-01'',
     isBulkExporting = False, errors = [], alerts = [], savedFiles = []\<rparr>"


section \<open>A serialisation of backup documents\<close>

text \<open>
  A pair of functions that can stand for \<^verbatim>\<open>JSON.stringify\<close> and \<^verbatim>\<open>JSON.parse\<close>: a
  text format for backup documents and its reader. A number is written in unary, a string
  after its length, a list after its length, a record as its fields in order. A reader
  takes a text and returns the value read and the rest of the text, if there is a value.
\<close>

definition andThen ::
  "(string \<Rightarrow> ('a \<times> string) option) \<Rightarrow> ('a \<Rightarrow> string \<Rightarrow> ('b \<times> string) option) \<Rightarrow>
     string \<Rightarrow> ('b \<times> string) option" where
  "andThen p f s = (case p s of None \<Rightarrow> None | Some (v, r) \<Rightarrow> f v r)"

definition yield :: "'a \<Rightarrow> string \<Rightarrow> ('a \<times> string) option" where
  "yield v s = Some (v, s)"

definition write_nat :: "nat \<Rightarrow> string" where
  "write_nat n = replicate n (CHR ''1'') @ ''0''"

fun read_nat :: "string \<Rightarrow> (nat \<times> string) option" where
  "read_nat [] = None"
| "read_nat (c # s) =
     (if c = CHR ''1'' then (case read_nat s of None \<Rightarrow> None | Some (n, r) \<Rightarrow> Some (Suc n, r))
      else if c = CHR ''0'' then Some (0, s)
      else None)"

definition write_int :: "int \<Rightarrow> string" where
  "write_int i = (if i < 0 then CHR ''-'' # write_nat (nat (- i)) else CHR ''+'' # write_nat (nat i))"

definition read_int :: "string \<Rightarrow> (int \<times> string) option" where
  "read_int s =
     (case s of
        [] \<Rightarrow> None
      | c # t \<Rightarrow>
          if c = CHR ''-'' then andThen read_nat (\<lambda>n. yield (- int n)) t
          else if c = CHR ''+'' then andThen read_nat (\<lambda>n. yield (int n)) t
          else None)"

definition write_string :: "string \<Rightarrow> string" where
  "write_string v = write_nat (length v) @ v"

definition read_string :: "string \<Rightarrow> (string \<times> string) option" where
  "read_string =
     andThen read_nat (\<lambda>n s. if length s < n then None else Some (take n s, drop n s))"

definition write_list :: "('a \<Rightarrow> string) \<Rightarrow> 'a list \<Rightarrow> string" where
  "write_list w vs = write_nat (length vs) @ concat (map w vs)"

primrec read_times ::
  "(string \<Rightarrow> ('a \<times> string) option) \<Rightarrow> nat \<Rightarrow> string \<Rightarrow> ('a list \<times> string) option" where
  "read_times p 0 s = Some ([], s)"
| "read_times p (Suc n) s =
     (case p s of
        None \<Rightarrow> None
      | Some (v, r) \<Rightarrow>
          (case read_times p n r of None \<Rightarrow> None | Some (vs, r') \<Rightarrow> Some (v # vs, r')))"

definition read_list ::
  "(string \<Rightarrow> ('a \<times> string) option) \<Rightarrow> string \<Rightarrow> ('a list \<times> string) option" where
  "read_list p = andThen read_nat (read_times p)"

definition write_option :: "('a \<Rightarrow> string) \<Rightarrow> 'a option \<Rightarrow> string" where
  "write_option w v = (case v of None \<Rightarrow> ''N'' | Some a \<Rightarrow> CHR ''S'' # w a)"

definition read_option ::
  "(string \<Rightarrow> ('a \<times> string) option) \<Rightarrow> string \<Rightarrow> ('a option \<times> string) option" where
  "read_option p s =
     (case s of
        [] \<Rightarrow> None
      | c # t \<Rightarrow>
          if c = CHR ''N'' then Some (None, t)
          else if c = CHR ''S'' then andThen p (\<lambda>a. yield (Some a)) t
          else None)"

definition write_WorkCoverage :: "WorkCoverage \<Rightarrow> string" where
  "write_WorkCoverage v = (case v of Complete \<Rightarrow> ''c'' | Partial \<Rightarrow> ''p'' | Missing \<Rightarrow> ''m'')"

definition read_WorkCoverage :: "string \<Rightarrow> (WorkCoverage \<times> string) option" where
  "read_WorkCoverage s =
     (case s of
        [] \<Rightarrow> None
      | c # t \<Rightarrow>
          if c = CHR ''c'' then Some (Complete, t)
          else if c = CHR ''p'' then Some (Partial, t)
          else if c = CHR ''m'' then Some (Missing, t)
          else None)"

definition write_Teacher :: "Teacher \<Rightarrow> string" where
  "write_Teacher v =
     write_string (Teacher.id v) @ write_string (name v) @
     write_list write_string (subjects v) @ write_list write_string (classes v)"

definition read_Teacher :: "string \<Rightarrow> (Teacher \<times> string) option" where
  "read_Teacher =
     andThen read_string (\<lambda>a.
     andThen read_string (\<lambda>b.
     andThen (read_list read_string) (\<lambda>c.
     andThen (read_list read_string) (\<lambda>d.
     yield \<lparr>Teacher.id = a, name = b, subjects = c, classes = d\<rparr>))))"

definition write_SupervisionReport :: "SupervisionReport \<Rightarrow> string" where
  "write_SupervisionReport v =
     write_string (Report.id v) @ write_string (teacherName v) @ write_string (className v) @
     write_string (subject v) @ write_string (date v) @ write_int (rating v) @
     write_string (lessonObjectives v) @ write_string (teachingMethods v) @
     write_string (learnerEngagement v) @ write_string (classroomManagement v) @
     write_string (useOfTeachingAids v) @ write_string (assessmentAndFeedback v) @
     write_string (strengths v) @ write_string (weaknesses v) @
     write_string (recommendations v)"

definition read_SupervisionReport :: "string \<Rightarrow> (SupervisionReport \<times> string) option" where
  "read_SupervisionReport =
     andThen read_string (\<lambda>a1.
     andThen read_string (\<lambda>a2.
     andThen read_string (\<lambda>a3.
     andThen read_string (\<lambda>a4.
     andThen read_string (\<lambda>a5.
     andThen read_int (\<lambda>a6.
     andThen read_string (\<lambda>a7.
     andThen read_string (\<lambda>a8.
     andThen read_string (\<lambda>a9.
     andThen read_string (\<lambda>b1.
     andThen read_string (\<lambda>b2.
     andThen read_string (\<lambda>b3.
     andThen read_string (\<lambda>b4.
     andThen read_string (\<lambda>b5.
     andThen read_string (\<lambda>b6.
     yield \<lparr>Report.id = a1, teacherName = a2, className = a3, subject = a4, date = a5,
       rating = a6, lessonObjectives = a7, teachingMethods = a8, learnerEngagement = a9,
       classroomManagement = b1, useOfTeachingAids = b2, assessmentAndFeedback = b3,
       strengths = b4, weaknesses = b5, recommendations = b6\<rparr>)))))))))))))))"

definition write_BookCheckingReport :: "BookCheckingReport \<Rightarrow> string" where
  "write_BookCheckingReport v =
     write_string (Report.id v) @ write_string (teacherName v) @ write_string (className v) @
     write_string (subject v) @ write_string (date v) @ write_string (booksChecked v) @
     write_WorkCoverage (workCoverage v) @ write_int (markingRegularity v) @
     write_int (feedbackQuality v) @ write_int (learnerNeatness v) @
     write_string (exemplaryWorkNoted v) @ write_string (commonStudentErrors v) @
     write_string (teacherResponseToFeedback v) @ write_string (comments v)"

definition read_BookCheckingReport :: "string \<Rightarrow> (BookCheckingReport \<times> string) option" where
  "read_BookCheckingReport =
     andThen read_string (\<lambda>a1.
     andThen read_string (\<lambda>a2.
     andThen read_string (\<lambda>a3.
     andThen read_string (\<lambda>a4.
     andThen read_string (\<lambda>a5.
     andThen read_string (\<lambda>a6.
     andThen read_WorkCoverage (\<lambda>a7.
     andThen read_int (\<lambda>a8.
     andThen read_int (\<lambda>a9.
     andThen read_int (\<lambda>b1.
     andThen read_string (\<lambda>b2.
     andThen read_string (\<lambda>b3.
     andThen read_string (\<lambda>b4.
     andThen read_string (\<lambda>b5.
     yield \<lparr>Report.id = a1, teacherName = a2, className = a3, subject = a4, date = a5,
       booksChecked = a6, workCoverage = a7, markingRegularity = a8, feedbackQuality = a9,
       learnerNeatness = b1, exemplaryWorkNoted = b2, commonStudentErrors = b3,
       teacherResponseToFeedback = b4, comments = b5\<rparr>))))))))))))))"

definition write_WorkCoverageReport :: "WorkCoverageReport \<Rightarrow> string" where
  "write_WorkCoverageReport v =
     write_string (Report.id v) @ write_string (teacherName v) @ write_string (className v) @
     write_string (subject v) @ write_string (date v) @ write_string (plannedTopics v) @
     write_string (completedTopics v) @ write_string (pendingTopics v) @
     write_string (remarks v) @ write_string (teacherSignature v) @
     write_string (supervisorSignature v)"

definition read_WorkCoverageReport :: "string \<Rightarrow> (WorkCoverageReport \<times> string) option" where
  "read_WorkCoverageReport =
     andThen read_string (\<lambda>a1.
     andThen read_string (\<lambda>a2.
     andThen read_string (\<lambda>a3.
     andThen read_string (\<lambda>a4.
     andThen read_string (\<lambda>a5.
     andThen read_string (\<lambda>a6.
     andThen read_string (\<lambda>a7.
     andThen read_string (\<lambda>a8.
     andThen read_string (\<lambda>a9.
     andThen read_string (\<lambda>b1.
     andThen read_string (\<lambda>b2.
     yield \<lparr>Report.id = a1, teacherName = a2, className = a3, subject = a4, date = a5,
       plannedTopics = a6, completedTopics = a7, pendingTopics = a8, remarks = a9,
       teacherSignature = b1, supervisorSignature = b2\<rparr>)))))))))))"

definition write_AppSetting :: "AppSetting \<Rightarrow> string" where
  "write_AppSetting v = write_string (key v) @ write_string (val v)"

definition read_AppSetting :: "string \<Rightarrow> (AppSetting \<times> string) option" where
  "read_AppSetting =
     andThen read_string (\<lambda>a.
     andThen read_string (\<lambda>b.
     yield \<lparr>key = a, val = b\<rparr>))"

definition write_backup :: "backup \<Rightarrow> string" where
  "write_backup d =
     write_option (write_list write_Teacher) (backup.teachers d) @
     write_option (write_list write_SupervisionReport) (backup.supervisionReports d) @
     write_option (write_list write_BookCheckingReport) (backup.bookCheckingReports d) @
     write_option (write_list write_WorkCoverageReport) (backup.workCoverageReports d) @
     write_option (write_list write_AppSetting) (backup.settings d)"

definition read_backup :: "string \<Rightarrow> (backup \<times> string) option" where
  "read_backup =
     andThen (read_option (read_list read_Teacher)) (\<lambda>a.
     andThen (read_option (read_list read_SupervisionReport)) (\<lambda>b.
     andThen (read_option (read_list read_BookCheckingReport)) (\<lambda>c.
     andThen (read_option (read_list read_WorkCoverageReport)) (\<lambda>d.
     andThen (read_option (read_list read_AppSetting)) (\<lambda>e.
     yield \<lparr>backup.teachers = a, backup.supervisionReports = b,
       backup.bookCheckingReports = c, backup.workCoverageReports = d,
       backup.settings = e\<rparr>)))))"

text \<open>
  The two functions in the roles of \<^verbatim>\<open>JSON.stringify\<close> and \<^verbatim>\<open>JSON.parse\<close>: a
  text that is a document and nothing more reads as that document, every other text is
  rejected.
\<close>

definition sampleStringify :: "backup \<Rightarrow> string" where
  "sampleStringify d = write_backup d"

definition sampleJsonParse :: "string \<Rightarrow> json_value option" where
  "sampleJsonParse s =
     (case read_backup s of
        Some (d, []) \<Rightarrow> Some (JsonObject d)
      | _ \<Rightarrow> None)"

section \<open>Properties of the table operations\<close>

lemma put_keys: "k ` set (put k r t) = insert (k r) (k ` set t)"
  by (induction t) auto

lemma table_ok_put: "table_ok k t \<Longrightarrow> table_ok k (put k r t)"
proof (induction t)
  case Nil
  then show ?case by (simp add: table_ok_def)
next
  case (Cons x xs)
  have tail: "table_ok k xs" using Cons.prems by (simp add: table_ok_def)
  have above: "\<forall>y\<in>set xs. k x < k y" using Cons.prems by (simp add: table_ok_def)
  show ?case
  proof (cases "k r = k x")
    case True
    then show ?thesis using Cons.prems by (simp add: table_ok_def)
  next
    case neq: False
    show ?thesis
    proof (cases "k r < k x")
      case True
      then show ?thesis using Cons.prems neq by (auto simp: table_ok_def)
    next
      case False
      then have lt: "k x < k r" using neq by auto
      have "\<forall>y\<in>set (put k r xs). k x < k y"
      proof
        fix y assume "y \<in> set (put k r xs)"
        then have "k y \<in> insert (k r) (k ` set xs)" using put_keys [of k r xs] by blast
        then show "k x < k y" using lt above by auto
      qed
      then show ?thesis using Cons.IH [OF tail] neq False by (simp add: table_ok_def)
    qed
  qed
qed

lemma put_only_one:
  "table_ok k t \<Longrightarrow> filter (\<lambda>x. k x = k r) (put k r t) = [r]"
proof (induction t)
  case Nil
  then show ?case by simp
next
  case (Cons x xs)
  have tail: "table_ok k xs" using Cons.prems by (simp add: table_ok_def)
  have above: "\<forall>y\<in>set xs. k x < k y" using Cons.prems by (simp add: table_ok_def)
  show ?case
  proof (cases "k r = k x")
    case True
    then have "\<forall>y\<in>set xs. k y \<noteq> k r" using above by auto
    then have "filter (\<lambda>y. k y = k r) xs = []" by (simp add: filter_empty_conv)
    then show ?thesis using True by simp
  next
    case neq: False
    show ?thesis
    proof (cases "k r < k x")
      case True
      then have "\<forall>y\<in>set xs. k y \<noteq> k r" using above by force
      then have "filter (\<lambda>y. k y = k r) xs = []" by (simp add: filter_empty_conv)
      then show ?thesis using neq True by auto
    next
      case False
      then show ?thesis using neq Cons.IH [OF tail] by auto
    qed
  qed
qed

lemma put_twice_only_second:
  assumes "table_ok k t" and "k r1 = k r2"
  shows "filter (\<lambda>x. k x = k r2) (put k r2 (put k r1 t)) = [r2]"
  using put_only_one [OF table_ok_put [OF assms(1)], of r2 r1] by simp

section \<open>Upsert idempotence\<close>

text \<open>
  Claim C4. Saving a report twice under one id leaves exactly one record of that id in the
  table, and it is the record of the second save. Stated for the three report modules, on a
  store whose tables have unique keys.
\<close>

theorem C4_upsert_twice:
  "db_ok db \<Longrightarrow> Report.id r1 = Report.id r2 \<Longrightarrow> Report.id b1 = Report.id b2 \<Longrightarrow>
   Report.id w1 = Report.id w2 \<Longrightarrow>
     filter (\<lambda>x. Report.id x = Report.id r2)
       (toArray (supervisionReports (fst (handleSave r2 (handleSave r1 (db, m)))))) = [r2] \<and>
     filter (\<lambda>x. Report.id x = Report.id b2)
       (toArray (bookCheckingReports
          (fst (handleSave_bookChecking b2 (handleSave_bookChecking b1 (db, m)))))) = [b2] \<and>
     filter (\<lambda>x. Report.id x = Report.id w2)
       (toArray (workCoverageReports
          (fst (handleSave_workCoverage w2 (handleSave_workCoverage w1 (db, m)))))) = [w2]"
  by (simp add: handleSave_def handleSave_bookChecking_def handleSave_workCoverage_def
      toArray_def db_ok_def put_twice_only_second)

theorem C4_upsert_twice_witness:
  "db_ok sampleDb \<and>
   filter (\<lambda>x. Report.id x = ''17'')
     (toArray (supervisionReports (fst
        (handleSave (sampleSupervision ''17'' ''Cy'' ''Art'' ''2024-05-05'')
          (handleSave (sampleSupervision ''17'' ''Bob'' ''Math'' ''2024-04-04'')
             (sampleDb, formOpen)))))) =
     [sampleSupervision ''17'' ''Cy'' ''Art'' ''2024-05-05''] \<and>
   filter (\<lambda>x. Report.id x = ''21'')
     (toArray (bookCheckingReports (fst
        (handleSave_bookChecking (sampleBookChecking ''21'' ''Cy'')
          (handleSave_bookChecking (sampleBookChecking ''21'' ''Bob'')
             (sampleDb, formOpen)))))) =
     [sampleBookChecking ''21'' ''Cy''] \<and>
   filter (\<lambda>x. Report.id x = ''40'')
     (toArray (workCoverageReports (fst
        (handleSave_workCoverage (sampleWorkCoverage ''40'' ''Cy'')
          (handleSave_workCoverage (sampleWorkCoverage ''40'' ''Bob'')
             (sampleDb, formOpen)))))) =
     [sampleWorkCoverage ''40'' ''Cy'']"
proof -
  have ok: "db_ok sampleDb"
    by (simp add: db_ok_def table_ok_def sampleDb_def sampleSupervision_def
        sampleBookChecking_def sampleWorkCoverage_def)
  have i1: "Report.id (sampleSupervision ''17'' ''Bob'' ''Math'' ''2024-04-04'') =
            Report.id (sampleSupervision ''17'' ''Cy'' ''Art'' ''2024-05-05'')"
    by (simp add: sampleSupervision_def)
  have i2: "Report.id (sampleBookChecking ''21'' ''Bob'') =
            Report.id (sampleBookChecking ''21'' ''Cy'')"
    by (simp add: sampleBookChecking_def)
  have i3: "Report.id (sampleWorkCoverage ''40'' ''Bob'') =
            Report.id (sampleWorkCoverage ''40'' ''Cy'')"
    by (simp add: sampleWorkCoverage_def)
  have s1: "Report.id (sampleSupervision ''17'' ''Cy'' ''Art'' ''2024-05-05'') = ''17''"
    by (simp add: sampleSupervision_def)
  have s2: "Report.id (sampleBookChecking ''21'' ''Cy'') = ''21''"
    by (simp add: sampleBookChecking_def)
  have s3: "Report.id (sampleWorkCoverage ''40'' ''Cy'') = ''40''"
    by (simp add: sampleWorkCoverage_def)
  show ?thesis
    using ok C4_upsert_twice [OF ok i1 i2 i3, of formOpen] by (simp only: s1 s2 s3 simp_thms)
qed

section \<open>Validation of the supervision form\<close>

text \<open>
  Claim C5, as the specification states it: the empty supervision form fails validation
  with eleven required-field errors. The code reports thirteen.
\<close>

theorem C5_eleven_errors_counterexample:
  "length (fst (validateForm emptyForm)) \<noteq> 11"
  by (simp add: validateForm_def emptyForm_def required_def trim_def)

text \<open>
  Claim C5, amended. Submitting the supervision form with rating 0 and every text field
  empty (whatever its id) fails validation with all thirteen required-field errors reported
  at once, one for each of the four detail fields and the nine free-text fields; nothing is
  written to the store, the view does not change (it stays FORM), and one alert is shown.
\<close>

theorem C5_empty_form_rejected:
  "map fst (fst (validateForm (emptyForm\<lparr>Report.id := i\<rparr>))) =
     [''teacherName'', ''className'', ''subject'', ''date'', ''lessonObjectives'',
      ''teachingMethods'', ''learnerEngagement'', ''classroomManagement'',
      ''useOfTeachingAids'', ''assessmentAndFeedback'', ''strengths'', ''weaknesses'',
      ''recommendations''] \<and>
   length (fst (validateForm (emptyForm\<lparr>Report.id := i\<rparr>))) = 13 \<and>
   \<not> snd (validateForm (emptyForm\<lparr>Report.id := i\<rparr>)) \<and>
   fst (handleSubmit now (emptyForm\<lparr>Report.id := i\<rparr>) (db, m)) = db \<and>
   view (snd (handleSubmit now (emptyForm\<lparr>Report.id := i\<rparr>) (db, m))) = view m \<and>
   errors (snd (handleSubmit now (emptyForm\<lparr>Report.id := i\<rparr>) (db, m))) =
     fst (validateForm (emptyForm\<lparr>Report.id := i\<rparr>)) \<and>
   alerts (snd (handleSubmit now (emptyForm\<lparr>Report.id := i\<rparr>) (db, m))) =
     alerts m @ [''Please fill out all required fields.'']"
  by (simp add: handleSubmit_def validateForm_def emptyForm_def required_def trim_def)

section \<open>Identifiers of submitted reports\<close>

lemma digits_nonempty: "digits n \<noteq> []"
  by (subst digits.simps) simp

lemma toString_nonempty: "toString i \<noteq> []"
  by (simp add: toString_def digits_nonempty)

lemma set_put: "set (put k r t) \<subseteq> insert r (set t)"
  by (induction t) auto

lemma put_keeps_ids:
  assumes "\<forall>x\<in>set t. k x \<noteq> []" and "k r \<noteq> []"
  shows "\<forall>x\<in>set (put k r t). k x \<noteq> []"
  using assms set_put [of k r t] by blast

text \<open>The expression \<^verbatim>\<open>{ ...formData, id: formData.id || Date.now().toString() }\<close>.\<close>

lemma fresh_id:
  fixes f :: "'a Report_scheme" and now :: int
  defines "r \<equiv> f\<lparr>Report.id := (if Report.id f \<noteq> [] then Report.id f else toString now)\<rparr>"
  shows "Report.id r \<noteq> [] \<and> r = f\<lparr>Report.id := Report.id r\<rparr> \<and>
         (Report.id f \<noteq> [] \<longrightarrow> Report.id r = Report.id f) \<and>
         (Report.id f = [] \<longrightarrow> Report.id r = toString now)"
  unfolding r_def by (simp add: toString_nonempty)

lemma handleSubmit_valid:
  "snd (validateForm f) \<Longrightarrow>
   fst (handleSubmit now f (db, m)) =
     db\<lparr>supervisionReports :=
          put Report.id
            (f\<lparr>Report.id := (if Report.id f \<noteq> [] then Report.id f else toString now)\<rparr>)
            (supervisionReports db)\<rparr>"
  by (cases "validateForm f") (simp add: handleSubmit_def handleSave_def)

lemma handleSubmit_invalid:
  "\<not> snd (validateForm f) \<Longrightarrow> fst (handleSubmit now f (db, m)) = db"
  by (cases "validateForm f") (simp add: handleSubmit_def)

lemma handleSubmit_bookChecking_valid:
  "snd (validateForm_bookChecking p f) \<Longrightarrow>
   fst (handleSubmit_bookChecking p now f (db, m)) =
     db\<lparr>bookCheckingReports :=
          put Report.id
            (f\<lparr>Report.id := (if Report.id f \<noteq> [] then Report.id f else toString now)\<rparr>)
            (bookCheckingReports db)\<rparr>"
  by (cases "validateForm_bookChecking p f")
    (simp add: handleSubmit_bookChecking_def handleSave_bookChecking_def)

lemma handleSubmit_bookChecking_invalid:
  "\<not> snd (validateForm_bookChecking p f) \<Longrightarrow>
   fst (handleSubmit_bookChecking p now f (db, m)) = db"
  by (cases "validateForm_bookChecking p f") (simp add: handleSubmit_bookChecking_def)

lemma handleSubmit_workCoverage_valid:
  "snd (validateForm_workCoverage f) \<Longrightarrow>
   fst (handleSubmit_workCoverage now f (db, m)) =
     db\<lparr>workCoverageReports :=
          put Report.id
            (f\<lparr>Report.id := (if Report.id f \<noteq> [] then Report.id f else toString now)\<rparr>)
            (workCoverageReports db)\<rparr>"
  by (cases "validateForm_workCoverage f")
    (simp add: handleSubmit_workCoverage_def handleSave_workCoverage_def)

lemma handleSubmit_workCoverage_invalid:
  "\<not> snd (validateForm_workCoverage f) \<Longrightarrow>
   fst (handleSubmit_workCoverage now f (db, m)) = db"
  by (cases "validateForm_workCoverage f") (simp add: handleSubmit_workCoverage_def)

lemma handleSubmit_written:
  "snd (validateForm f) \<longrightarrow>
     (\<exists>r. fst (handleSubmit now f (db, m)) =
             db\<lparr>supervisionReports := put Report.id r (supervisionReports db)\<rparr> \<and>
          Report.id r \<noteq> [] \<and> r = f\<lparr>Report.id := Report.id r\<rparr> \<and>
          (Report.id f \<noteq> [] \<longrightarrow> Report.id r = Report.id f) \<and>
          (Report.id f = [] \<longrightarrow> Report.id r = toString now))"
proof
  assume v: "snd (validateForm f)"
  show "\<exists>r. fst (handleSubmit now f (db, m)) =
             db\<lparr>supervisionReports := put Report.id r (supervisionReports db)\<rparr> \<and>
          Report.id r \<noteq> [] \<and> r = f\<lparr>Report.id := Report.id r\<rparr> \<and>
          (Report.id f \<noteq> [] \<longrightarrow> Report.id r = Report.id f) \<and>
          (Report.id f = [] \<longrightarrow> Report.id r = toString now)"
    by (rule exI, rule conjI, rule handleSubmit_valid [OF v], rule fresh_id)
qed

lemma handleSubmit_bookChecking_written:
  "snd (validateForm_bookChecking p f) \<longrightarrow>
     (\<exists>r. fst (handleSubmit_bookChecking p now f (db, m)) =
             db\<lparr>bookCheckingReports := put Report.id r (bookCheckingReports db)\<rparr> \<and>
          Report.id r \<noteq> [] \<and> r = f\<lparr>Report.id := Report.id r\<rparr> \<and>
          (Report.id f \<noteq> [] \<longrightarrow> Report.id r = Report.id f) \<and>
          (Report.id f = [] \<longrightarrow> Report.id r = toString now))"
proof
  assume v: "snd (validateForm_bookChecking p f)"
  show "\<exists>r. fst (handleSubmit_bookChecking p now f (db, m)) =
             db\<lparr>bookCheckingReports := put Report.id r (bookCheckingReports db)\<rparr> \<and>
          Report.id r \<noteq> [] \<and> r = f\<lparr>Report.id := Report.id r\<rparr> \<and>
          (Report.id f \<noteq> [] \<longrightarrow> Report.id r = Report.id f) \<and>
          (Report.id f = [] \<longrightarrow> Report.id r = toString now)"
    by (rule exI, rule conjI, rule handleSubmit_bookChecking_valid [OF v], rule fresh_id)
qed

lemma handleSubmit_workCoverage_written:
  "snd (validateForm_workCoverage f) \<longrightarrow>
     (\<exists>r. fst (handleSubmit_workCoverage now f (db, m)) =
             db\<lparr>workCoverageReports := put Report.id r (workCoverageReports db)\<rparr> \<and>
          Report.id r \<noteq> [] \<and> r = f\<lparr>Report.id := Report.id r\<rparr> \<and>
          (Report.id f \<noteq> [] \<longrightarrow> Report.id r = Report.id f) \<and>
          (Report.id f = [] \<longrightarrow> Report.id r = toString now))"
proof
  assume v: "snd (validateForm_workCoverage f)"
  show "\<exists>r. fst (handleSubmit_workCoverage now f (db, m)) =
             db\<lparr>workCoverageReports := put Report.id r (workCoverageReports db)\<rparr> \<and>
          Report.id r \<noteq> [] \<and> r = f\<lparr>Report.id := Report.id r\<rparr> \<and>
          (Report.id f \<noteq> [] \<longrightarrow> Report.id r = Report.id f) \<and>
          (Report.id f = [] \<longrightarrow> Report.id r = toString now)"
    by (rule exI, rule conjI, rule handleSubmit_workCoverage_valid [OF v], rule fresh_id)
qed

text \<open>The tables of a store in which every report has a non-empty id.\<close>

lemma handleSubmit_ids:
  assumes "\<forall>x\<in>set (supervisionReports db). Report.id x \<noteq> []"
  shows "\<forall>x\<in>set (supervisionReports (fst (handleSubmit now f (db, m)))). Report.id x \<noteq> []"
proof (cases "snd (validateForm f)")
  case True
  define r where
    "r = f\<lparr>Report.id := (if Report.id f \<noteq> [] then Report.id f else toString now)\<rparr>"
  have "Report.id r \<noteq> []" unfolding r_def by (simp add: toString_nonempty)
  then have "\<forall>x\<in>set (put Report.id r (supervisionReports db)). Report.id x \<noteq> []"
    using assms by (rule put_keeps_ids [rotated])
  moreover have "supervisionReports (fst (handleSubmit now f (db, m))) =
      put Report.id r (supervisionReports db)"
    unfolding r_def by (simp add: handleSubmit_valid [OF True])
  ultimately show ?thesis by simp
next
  case False
  then show ?thesis using assms by (simp add: handleSubmit_invalid)
qed

lemma handleSubmit_bookChecking_ids:
  assumes "\<forall>x\<in>set (bookCheckingReports db). Report.id x \<noteq> []"
  shows "\<forall>x\<in>set (bookCheckingReports (fst (handleSubmit_bookChecking p now f (db, m)))).
           Report.id x \<noteq> []"
proof (cases "snd (validateForm_bookChecking p f)")
  case True
  define r where
    "r = f\<lparr>Report.id := (if Report.id f \<noteq> [] then Report.id f else toString now)\<rparr>"
  have "Report.id r \<noteq> []" unfolding r_def by (simp add: toString_nonempty)
  then have "\<forall>x\<in>set (put Report.id r (bookCheckingReports db)). Report.id x \<noteq> []"
    using assms by (rule put_keeps_ids [rotated])
  moreover have "bookCheckingReports (fst (handleSubmit_bookChecking p now f (db, m))) =
      put Report.id r (bookCheckingReports db)"
    unfolding r_def by (simp add: handleSubmit_bookChecking_valid [OF True])
  ultimately show ?thesis by simp
next
  case False
  then show ?thesis using assms by (simp add: handleSubmit_bookChecking_invalid)
qed

lemma handleSubmit_workCoverage_ids:
  assumes "\<forall>x\<in>set (workCoverageReports db). Report.id x \<noteq> []"
  shows "\<forall>x\<in>set (workCoverageReports (fst (handleSubmit_workCoverage now f (db, m)))).
           Report.id x \<noteq> []"
proof (cases "snd (validateForm_workCoverage f)")
  case True
  define r where
    "r = f\<lparr>Report.id := (if Report.id f \<noteq> [] then Report.id f else toString now)\<rparr>"
  have "Report.id r \<noteq> []" unfolding r_def by (simp add: toString_nonempty)
  then have "\<forall>x\<in>set (put Report.id r (workCoverageReports db)). Report.id x \<noteq> []"
    using assms by (rule put_keeps_ids [rotated])
  moreover have "workCoverageReports (fst (handleSubmit_workCoverage now f (db, m))) =
      put Report.id r (workCoverageReports db)"
    unfolding r_def by (simp add: handleSubmit_workCoverage_valid [OF True])
  ultimately show ?thesis by simp
next
  case False
  then show ?thesis using assms by (simp add: handleSubmit_workCoverage_invalid)
qed

text \<open>
  Claim C10. What a valid submission of each of the three report forms writes is one
  upsert of the form data with its id replaced: the id written is never empty, it is the
  id of the form data when that is not empty, and the decimal timestamp otherwise; no other
  field changes. Hence a table in which every id is non-empty stays so under submissions.
\<close>

theorem C10_written_id_nonempty:
  "(snd (validateForm f) \<longrightarrow>
     (\<exists>r. fst (handleSubmit now f (db, m)) =
             db\<lparr>supervisionReports := put Report.id r (supervisionReports db)\<rparr> \<and>
          Report.id r \<noteq> [] \<and> r = f\<lparr>Report.id := Report.id r\<rparr> \<and>
          (Report.id f \<noteq> [] \<longrightarrow> Report.id r = Report.id f) \<and>
          (Report.id f = [] \<longrightarrow> Report.id r = toString now))) \<and>
   (snd (validateForm_bookChecking p b) \<longrightarrow>
     (\<exists>r. fst (handleSubmit_bookChecking p now b (db, m)) =
             db\<lparr>bookCheckingReports := put Report.id r (bookCheckingReports db)\<rparr> \<and>
          Report.id r \<noteq> [] \<and> r = b\<lparr>Report.id := Report.id r\<rparr> \<and>
          (Report.id b \<noteq> [] \<longrightarrow> Report.id r = Report.id b) \<and>
          (Report.id b = [] \<longrightarrow> Report.id r = toString now))) \<and>
   (snd (validateForm_workCoverage w) \<longrightarrow>
     (\<exists>r. fst (handleSubmit_workCoverage now w (db, m)) =
             db\<lparr>workCoverageReports := put Report.id r (workCoverageReports db)\<rparr> \<and>
          Report.id r \<noteq> [] \<and> r = w\<lparr>Report.id := Report.id r\<rparr> \<and>
          (Report.id w \<noteq> [] \<longrightarrow> Report.id r = Report.id w) \<and>
          (Report.id w = [] \<longrightarrow> Report.id r = toString now))) \<and>
   ((\<forall>x\<in>set (supervisionReports db). Report.id x \<noteq> []) \<longrightarrow>
     (\<forall>x\<in>set (supervisionReports (fst (handleSubmit now f (db, m)))). Report.id x \<noteq> [])) \<and>
   ((\<forall>x\<in>set (bookCheckingReports db). Report.id x \<noteq> []) \<longrightarrow>
     (\<forall>x\<in>set (bookCheckingReports (fst (handleSubmit_bookChecking p now b (db, m)))).
        Report.id x \<noteq> [])) \<and>
   ((\<forall>x\<in>set (workCoverageReports db). Report.id x \<noteq> []) \<longrightarrow>
     (\<forall>x\<in>set (workCoverageReports (fst (handleSubmit_workCoverage now w (db, m)))).
        Report.id x \<noteq> []))"
proof (intro conjI)
  show "(\<forall>x\<in>set (supervisionReports db). Report.id x \<noteq> []) \<longrightarrow>
     (\<forall>x\<in>set (supervisionReports (fst (handleSubmit now f (db, m)))). Report.id x \<noteq> [])"
    by (rule impI) (rule handleSubmit_ids)
  show "(\<forall>x\<in>set (bookCheckingReports db). Report.id x \<noteq> []) \<longrightarrow>
     (\<forall>x\<in>set (bookCheckingReports (fst (handleSubmit_bookChecking p now b (db, m)))).
        Report.id x \<noteq> [])"
    by (rule impI) (rule handleSubmit_bookChecking_ids)
  show "(\<forall>x\<in>set (workCoverageReports db). Report.id x \<noteq> []) \<longrightarrow>
     (\<forall>x\<in>set (workCoverageReports (fst (handleSubmit_workCoverage now w (db, m)))).
        Report.id x \<noteq> [])"
    by (rule impI) (rule handleSubmit_workCoverage_ids)
qed (rule handleSubmit_written handleSubmit_bookChecking_written
      handleSubmit_workCoverage_written)+

theorem C10_written_id_nonempty_witness:
  "snd (validateForm (sampleSupervision [] ''Ann'' ''Math'' ''2024-03-01'')) \<and>
   snd (validateForm_bookChecking (\<lambda>s. Some 12) (sampleBookChecking ''21'' ''Ann'')) \<and>
   snd (validateForm_workCoverage (sampleWorkCoverage [] ''Ann'')) \<and>
   [] \<notin> Report.id ` set (supervisionReports sampleDb) \<and>
   (\<exists>r. fst (handleSubmit 1700000000000 (sampleSupervision [] ''Ann'' ''Math'' ''2024-03-01'')
              (sampleDb, formOpen)) =
          sampleDb\<lparr>supervisionReports := put Report.id r (supervisionReports sampleDb)\<rparr> \<and>
        Report.id r = ''1700000000000'') \<and>
   (\<exists>r. fst (handleSubmit_bookChecking (\<lambda>s. Some 12) 1700000000000
              (sampleBookChecking ''21'' ''Ann'') (sampleDb, formOpen)) =
          sampleDb\<lparr>bookCheckingReports := put Report.id r (bookCheckingReports sampleDb)\<rparr> \<and>
        Report.id r = ''21'') \<and>
   [] \<notin> Report.id ` set (supervisionReports (fst (handleSubmit 1700000000000
        (sampleSupervision [] ''Ann'' ''Math'' ''2024-03-01'') (sampleDb, formOpen))))"
proof -
  let ?f = "sampleSupervision [] ''Ann'' ''Math'' ''2024-03-01''"
  let ?b = "sampleBookChecking ''21'' ''Ann''"
  let ?w = "sampleWorkCoverage [] ''Ann''"
  have v1: "snd (validateForm ?f)"
    by (simp add: validateForm_def sampleSupervision_def required_def trim_def isWhiteSpace_def)
  have v2: "snd (validateForm_bookChecking (\<lambda>s. Some 12) ?b)"
    by (simp add: validateForm_bookChecking_def sampleBookChecking_def required_def trim_def
        isWhiteSpace_def)
  have v3: "snd (validateForm_workCoverage ?w)"
    by (simp add: validateForm_workCoverage_def sampleWorkCoverage_def required_def trim_def
        isWhiteSpace_def)
  have i1: "\<forall>x\<in>set (supervisionReports sampleDb). Report.id x \<noteq> []"
    by (simp add: sampleDb_def sampleSupervision_def)
  have i2: "\<forall>x\<in>set (bookCheckingReports sampleDb). Report.id x \<noteq> []"
    by (simp add: sampleDb_def sampleBookChecking_def)
  have i3: "\<forall>x\<in>set (workCoverageReports sampleDb). Report.id x \<noteq> []"
    by (simp add: sampleDb_def sampleWorkCoverage_def)
  have e1: "Report.id ?f = []" by (simp add: sampleSupervision_def)
  have e2: "Report.id ?b = ''21''" by (simp add: sampleBookChecking_def)
  have t: "toString 1700000000000 = ''1700000000000''"
    by (simp add: toString_def digit_def digits.simps)
  note C = C10_written_id_nonempty [of ?f 1700000000000 sampleDb formOpen "\<lambda>s. Some 12" ?b ?w]
  have c1: "\<exists>r. fst (handleSubmit 1700000000000 ?f (sampleDb, formOpen)) =
          sampleDb\<lparr>supervisionReports := put Report.id r (supervisionReports sampleDb)\<rparr> \<and>
        Report.id r = ''1700000000000''"
    using C v1 e1 t by metis
  have c2: "\<exists>r. fst (handleSubmit_bookChecking (\<lambda>s. Some 12) 1700000000000 ?b
              (sampleDb, formOpen)) =
          sampleDb\<lparr>bookCheckingReports := put Report.id r (bookCheckingReports sampleDb)\<rparr> \<and>
        Report.id r = ''21''"
    using C v2 e2 by (metis list.distinct(1))
  have c3: "\<forall>x\<in>set (supervisionReports (fst (handleSubmit 1700000000000 ?f
        (sampleDb, formOpen)))). Report.id x \<noteq> []"
    using C i1 by blast
  have j1: "[] \<notin> Report.id ` set (supervisionReports sampleDb)"
    using i1 by (auto simp: image_iff)
  have j2: "[] \<notin> Report.id ` set (supervisionReports (fst (handleSubmit 1700000000000 ?f
        (sampleDb, formOpen))))"
    using c3 by (auto simp: image_iff)
  show ?thesis using v1 v2 v3 j1 j2 c1 c2 by blast
qed

section \<open>Composition of pages\<close>

lemma scaleToPage_wide:
  assumes "0 < width c" and "0 < height c"
    and "pw * real (height c) \<le> ph * real (width c)"
  shows "scaleToPage pw ph c =
           \<lparr>imgData = toDataURL c, posX = 0, posY = 0, imgWidth = pw,
            imgHeight = pw * real (height c) / real (width c)\<rparr>"
proof -
  have "pw / (real (width c) / real (height c)) = pw * real (height c) / real (width c)"
    by simp
  moreover have "pw * real (height c) / real (width c) \<le> ph"
    using assms by (simp add: pos_divide_le_eq)
  ultimately show ?thesis by (simp add: scaleToPage_def Let_def)
qed

lemma scaleToPage_tall:
  assumes "0 < width c" and "0 < height c"
    and "ph * real (width c) < pw * real (height c)"
  shows "scaleToPage pw ph c =
           \<lparr>imgData = toDataURL c, posX = (pw - ph * real (width c) / real (height c)) / 2,
            posY = 0, imgWidth = ph * real (width c) / real (height c), imgHeight = ph\<rparr>"
proof -
  have "pw / (real (width c) / real (height c)) = pw * real (height c) / real (width c)"
    by simp
  moreover have "ph < pw * real (height c) / real (width c)"
    using assms by (simp add: pos_less_divide_eq)
  ultimately show ?thesis by (simp add: scaleToPage_def Let_def)
qed

lemma addImage_new: "addImage img new_jsPDF = [[img]]"
  by (simp add: addImage_def new_jsPDF_def)

lemma addImage_addPage: "addImage img (addPage doc) = doc @ [[img]]"
  by (simp add: addImage_def addPage_def)

lemma generatePdfDocument_found:
  "document e = Some el \<Longrightarrow>
   generatePdfDocument document html2canvas e =
     Some [[scaleToPage getWidth getHeight (html2canvas el)]]"
  by (simp add: generatePdfDocument_def generateCanvas_def addImage_new)

text \<open>
  Claim C6. For a region that exists and is captured as a canvas of positive width and
  height, single-page composition yields a document of one page (the A4 page of 210 by
  297 mm) with one image: as wide as the page and of proportional height if that height
  fits, otherwise as high as the page and of proportional width. The aspect ratio of the
  canvas is kept, the image is within the page, it is centred horizontally and its top is
  at 0. Numbers are real numbers here, without floating-point rounding.
\<close>

theorem C6_single_page_placement:
  assumes "document e = Some el" and "0 < width (html2canvas el)"
    and "0 < height (html2canvas el)"
  shows "\<exists>img. generatePdfDocument document html2canvas e = Some [[img]] \<and>
     imgData img = toDataURL (html2canvas el) \<and>
     (imgWidth img, imgHeight img) =
       (if 210 * real (height (html2canvas el)) / real (width (html2canvas el)) > 297
        then (297 * real (width (html2canvas el)) / real (height (html2canvas el)), 297)
        else (210, 210 * real (height (html2canvas el)) / real (width (html2canvas el)))) \<and>
     imgWidth img * real (height (html2canvas el)) =
       imgHeight img * real (width (html2canvas el)) \<and>
     0 < imgWidth img \<and> imgWidth img \<le> 210 \<and> 0 < imgHeight img \<and> imgHeight img \<le> 297 \<and>
     posX img = (210 - imgWidth img) / 2 \<and> posY img = 0"
proof -
  define c where "c = html2canvas el"
  have w: "0 < width c" and h: "0 < height c" using assms by (simp_all add: c_def)
  have doc: "generatePdfDocument document html2canvas e = Some [[scaleToPage 210 297 c]]"
    using generatePdfDocument_found [of document e el html2canvas] assms(1)
    by (simp add: c_def getWidth_def getHeight_def)
  show ?thesis
  proof (cases "210 * real (height c) \<le> 297 * real (width c)")
    case True
    then have fit: "210 * real (height c) / real (width c) \<le> 297"
      using w by (simp add: pos_divide_le_eq)
    have s: "scaleToPage 210 297 c =
        \<lparr>imgData = toDataURL c, posX = 0, posY = 0, imgWidth = 210,
         imgHeight = 210 * real (height c) / real (width c)\<rparr>"
      using scaleToPage_wide [OF w h True] by simp
    show ?thesis
      unfolding c_def [symmetric] doc s using w h fit by simp
  next
    case False
    then have tall: "297 * real (width c) < 210 * real (height c)" by simp
    then have over: "210 * real (height c) / real (width c) > 297"
      using w by (simp add: pos_less_divide_eq)
    have narrow: "297 * real (width c) / real (height c) \<le> 210"
      using tall h by (simp add: pos_divide_le_eq)
    have s: "scaleToPage 210 297 c =
        \<lparr>imgData = toDataURL c,
         posX = (210 - 297 * real (width c) / real (height c)) / 2, posY = 0,
         imgWidth = 297 * real (width c) / real (height c), imgHeight = 297\<rparr>"
      using scaleToPage_tall [OF w h tall] by simp
    show ?thesis
      unfolding c_def [symmetric] doc s using w h over narrow by simp
  qed
qed

theorem C6_single_page_placement_witness:
  "(\<exists>img. generatePdfDocument (\<lambda>i. if i = ''report'' then Some True else None)
            (\<lambda>b. \<lparr>width = 800, height = 600, toDataURL = ''data:a''\<rparr>) ''report'' = Some [[img]] \<and>
      imgWidth img = 210 \<and> imgHeight img = 315 / 2 \<and> posX img = 0 \<and> posY img = 0) \<and>
   (\<exists>img. generatePdfDocument (\<lambda>i. if i = ''report'' then Some True else None)
            (\<lambda>b. \<lparr>width = 600, height = 1200, toDataURL = ''data:b''\<rparr>) ''report'' = Some [[img]] \<and>
      imgWidth img = 297 / 2 \<and> imgHeight img = 297 \<and> posX img = 123 / 4 \<and> posY img = 0)"
proof -
  let ?document = "\<lambda>i. if i = ''report'' then Some True else None"
  let ?wide = "\<lambda>b::bool. \<lparr>width = 800, height = 600, toDataURL = ''data:a''\<rparr>"
  let ?tall = "\<lambda>b::bool. \<lparr>width = 600, height = 1200, toDataURL = ''data:b''\<rparr>"
  have d: "?document ''report'' = Some True" by simp
  have a: "0 < width (?wide True)" "0 < height (?wide True)" by simp_all
  have b: "0 < width (?tall True)" "0 < height (?tall True)" by simp_all
  from C6_single_page_placement [of ?document "''report''" True ?wide, OF d a]
  obtain p where p: "generatePdfDocument ?document ?wide ''report'' = Some [[p]]"
    "(imgWidth p, imgHeight p) = (210, 210 * 600 / 800)"
    "posX p = (210 - imgWidth p) / 2" "posY p = 0"
    by auto
  from C6_single_page_placement [of ?document "''report''" True ?tall, OF d b]
  obtain q where q: "generatePdfDocument ?document ?tall ''report'' = Some [[q]]"
    "(imgWidth q, imgHeight q) = (297 * 600 / 1200, 297)"
    "posX q = (210 - imgWidth q) / 2" "posY q = 0"
    by auto
  have "imgWidth p = 210 \<and> imgHeight p = 315 / 2 \<and> posX p = 0 \<and> posY p = 0"
    using p(2-4) by simp
  moreover have "imgWidth q = 297 / 2 \<and> imgHeight q = 297 \<and> posX q = 123 / 4 \<and> posY q = 0"
    using q(2-4) by simp
  ultimately show ?thesis using p(1) q(1) by blast
qed

lemma bulkLoop_later_pages:
  assumes "\<forall>e\<in>set ids. document e \<noteq> None" and "0 < i"
  shows "bulkLoop document html2canvas pw ph i ids doc =
           doc @ map (\<lambda>e. [scaleToPage pw ph (html2canvas (the (document e)))]) ids"
  using assms
proof (induction ids arbitrary: i doc)
  case Nil
  then show ?case by simp
next
  case (Cons e rest)
  from Cons.prems obtain el where el: "document e = Some el" by auto
  have rest: "\<forall>x\<in>set rest. document x \<noteq> None" using Cons.prems by simp
  have "bulkLoop document html2canvas pw ph i (e # rest) doc =
          bulkLoop document html2canvas pw ph (i + 1) rest
            (doc @ [[scaleToPage pw ph (html2canvas el)]])"
    using Cons.prems(2) el by (simp add: generateCanvas_def addImage_addPage)
  also have "\<dots> = (doc @ [[scaleToPage pw ph (html2canvas el)]]) @
          map (\<lambda>x. [scaleToPage pw ph (html2canvas (the (document x)))]) rest"
    by (rule Cons.IH [OF rest]) simp
  finally show ?case using el by simp
qed

lemma bulkLoop_all_pages:
  assumes "\<forall>e\<in>set ids. document e \<noteq> None" and "ids \<noteq> []"
  shows "bulkLoop document html2canvas pw ph 0 ids new_jsPDF =
           map (\<lambda>e. [scaleToPage pw ph (html2canvas (the (document e)))]) ids"
proof -
  from assms(2) obtain e rest where ids: "ids = e # rest" by (cases ids) auto
  from assms(1) ids obtain el where el: "document e = Some el" by auto
  have rest: "\<forall>x\<in>set rest. document x \<noteq> None" using assms(1) ids by simp
  have "bulkLoop document html2canvas pw ph 0 ids new_jsPDF =
          bulkLoop document html2canvas pw ph 1 rest [[scaleToPage pw ph (html2canvas el)]]"
    using el by (simp add: ids generateCanvas_def addImage_new)
  also have "\<dots> = [[scaleToPage pw ph (html2canvas el)]] @
          map (\<lambda>x. [scaleToPage pw ph (html2canvas (the (document x)))]) rest"
    by (rule bulkLoop_later_pages [OF rest]) simp
  finally show ?thesis using el by (simp add: ids)
qed

text \<open>
  Claim C7. For a non-empty list of regions that all exist (so that every capture yields a
  canvas), multi-page composition produces a document with exactly one page for each
  region, in the order of the list, and page \<open>i\<close> is the very page that single-page
  composition makes of region \<open>i\<close>: one image, placed by the same scaling rule.
\<close>

theorem C7_bulk_one_page_per_image:
  assumes "elementIds \<noteq> []" and "\<forall>e\<in>set elementIds. document e \<noteq> None"
  shows "\<exists>doc. generateBulkPdfDocument document html2canvas elementIds = Some doc \<and>
     length doc = length elementIds \<and>
     (\<forall>i<length elementIds.
        generatePdfDocument document html2canvas (elementIds ! i) = Some [doc ! i])"
proof -
  let ?page = "\<lambda>e. [scaleToPage getWidth getHeight (html2canvas (the (document e)))]"
  have doc: "generateBulkPdfDocument document html2canvas elementIds =
      Some (map ?page elementIds)"
    using assms by (simp add: generateBulkPdfDocument_def bulkLoop_all_pages)
  have "generatePdfDocument document html2canvas (elementIds ! i) =
      Some [map ?page elementIds ! i]" if "i < length elementIds" for i
  proof -
    have "elementIds ! i \<in> set elementIds" using that by simp
    then have "document (elementIds ! i) \<noteq> None" using assms(2) by blast
    then obtain el where el: "document (elementIds ! i) = Some el" by auto
    show ?thesis
      using that el generatePdfDocument_found [of document "elementIds ! i" el html2canvas]
      by simp
  qed
  then have "generateBulkPdfDocument document html2canvas elementIds =
        Some (map ?page elementIds) \<and>
      length (map ?page elementIds) = length elementIds \<and>
      (\<forall>i<length elementIds.
         generatePdfDocument document html2canvas (elementIds ! i) =
           Some [map ?page elementIds ! i])"
    using doc by simp
  then show ?thesis by (rule exI)
qed

theorem C7_bulk_one_page_per_image_witness:
  "(\<lambda>i. if i = ''a'' \<or> i = ''b'' then Some i else None) ''a'' = Some ''a'' \<and>
   (\<lambda>i. if i = ''a'' \<or> i = ''b'' then Some i else None) ''b'' = Some ''b'' \<and>
   (\<exists>doc. generateBulkPdfDocument (\<lambda>i. if i = ''a'' \<or> i = ''b'' then Some i else None)
             (\<lambda>el. \<lparr>width = 800, height = 600, toDataURL = el\<rparr>) [''a'', ''b''] = Some doc \<and>
      length doc = 2 \<and>
      generatePdfDocument (\<lambda>i. if i = ''a'' \<or> i = ''b'' then Some i else None)
        (\<lambda>el. \<lparr>width = 800, height = 600, toDataURL = el\<rparr>) ''a'' = Some [doc ! 0] \<and>
      generatePdfDocument (\<lambda>i. if i = ''a'' \<or> i = ''b'' then Some i else None)
        (\<lambda>el. \<lparr>width = 800, height = 600, toDataURL = el\<rparr>) ''b'' = Some [doc ! 1])"
proof -
  let ?document = "\<lambda>i. if i = ''a'' \<or> i = ''b'' then Some i else None"
  let ?render = "\<lambda>el. \<lparr>width = 800, height = 600, toDataURL = el\<rparr>"
  have n: "[''a'', ''b''] \<noteq> ([] :: string list)" by simp
  have f: "\<forall>e\<in>set [''a'', ''b'']. ?document e \<noteq> None" by simp
  from C7_bulk_one_page_per_image [OF n f, of ?render]
  obtain doc where doc:
    "generateBulkPdfDocument ?document ?render [''a'', ''b''] = Some doc"
    "length doc = length [''a'', ''b'']"
    "\<forall>i<length [''a'', ''b''].
       generatePdfDocument ?document ?render ([''a'', ''b''] ! i) = Some [doc ! i]"
    by blast
  have "generatePdfDocument ?document ?render ''a'' = Some [doc ! 0]"
    using doc(3) [rule_format, of 0] by simp
  moreover have "generatePdfDocument ?document ?render ''b'' = Some [doc ! 1]"
    using doc(3) [rule_format, of 1] by simp
  ultimately show ?thesis using doc(1) doc(2) by simp
qed

section \<open>Bulk export of an empty list\<close>

lemma filteredAndSortedReports_Nil [simp]:
  "filteredAndSortedReports getTime localeCompare [] m = []"
  by (simp add: filteredAndSortedReports_def array_sort_def)

text \<open>
  Claim C8. When the filtered and sorted list is empty (as it is when the store has no
  reports), \<^verbatim>\<open>handleBulkExport\<close> only shows the alert "No reports to export.": it does
  not set the exporting flag and saves no file, so that the export effect, if no export
  was under way, does nothing either. Multi-page composition of the empty list returns no
  document.
\<close>

theorem C8_empty_bulk_export_rejected:
  assumes "filteredAndSortedReports getTime localeCompare reports m = []"
  shows "handleBulkExport getTime localeCompare reports m =
           m\<lparr>alerts := alerts m @ [''No reports to export.'']\<rparr> \<and>
         savedFiles (handleBulkExport getTime localeCompare reports m) = savedFiles m \<and>
         isBulkExporting (handleBulkExport getTime localeCompare reports m) =
           isBulkExporting m \<and>
         (\<not> isBulkExporting m \<longrightarrow>
            performExport document html2canvas getTime localeCompare today reports
              (handleBulkExport getTime localeCompare reports m) =
            handleBulkExport getTime localeCompare reports m) \<and>
         handleBulkExport getTime localeCompare [] m =
           m\<lparr>alerts := alerts m @ [''No reports to export.'']\<rparr> \<and>
         generateBulkPdfDocument document html2canvas [] = None"
  using assms
  by (simp add: handleBulkExport_def performExport_def generateBulkPdfDocument_def)

theorem C8_empty_bulk_export_rejected_witness:
  "\<not> isBulkExporting (formOpen\<lparr>view := LIST, searchQuery := ''zoology''\<rparr>) \<and>
   filteredAndSortedReports (\<lambda>s. None) (\<lambda>a b. 0) (supervisionReports sampleDb)
     (formOpen\<lparr>view := LIST, searchQuery := ''zoology''\<rparr>) = [] \<and>
   handleBulkExport (\<lambda>s. None) (\<lambda>a b. 0) (supervisionReports sampleDb)
     (formOpen\<lparr>view := LIST, searchQuery := ''zoology''\<rparr>) =
     formOpen\<lparr>view := LIST, searchQuery := ''zoology'', alerts := [''No reports to export.'']\<rparr> \<and>
   performExport (\<lambda>i. Some i) (\<lambda>el. \<lparr>width = 800, height = 600, toDataURL = el\<rparr>)
     (\<lambda>s. None) (\<lambda>a b. 0) ''2024-03-01'' (supervisionReports sampleDb)
     (handleBulkExport (\<lambda>s. None) (\<lambda>a b. 0) (supervisionReports sampleDb)
        (formOpen\<lparr>view := LIST, searchQuery := ''zoology''\<rparr>)) =
     formOpen\<lparr>view := LIST, searchQuery := ''zoology'', alerts := [''No reports to export.'']\<rparr>"
proof -
  let ?m = "formOpen\<lparr>view := LIST, searchQuery := ''zoology''\<rparr>"
  let ?document = "\<lambda>i::string. Some i"
  let ?render = "\<lambda>el. \<lparr>width = 800, height = 600, toDataURL = el\<rparr>"
  have e: "filteredAndSortedReports (\<lambda>s. None) (\<lambda>a b. 0) (supervisionReports sampleDb) ?m = []"
    by (simp add: filteredAndSortedReports_def array_sort_def sampleDb_def formOpen_def
        sampleSupervision_def toLowerCase_def)
  have f: "\<not> isBulkExporting ?m" "alerts ?m = []" by (simp_all add: formOpen_def)
  note C = C8_empty_bulk_export_rejected [OF e, of ?document ?render "''2024-03-01''"]
  have h: "handleBulkExport (\<lambda>s. None) (\<lambda>a b. 0) (supervisionReports sampleDb) ?m =
      formOpen\<lparr>view := LIST, searchQuery := ''zoology'', alerts := [''No reports to export.'']\<rparr>"
    using C f(2) by simp
  have p: "performExport ?document ?render (\<lambda>s. None) (\<lambda>a b. 0) ''2024-03-01''
      (supervisionReports sampleDb)
      (handleBulkExport (\<lambda>s. None) (\<lambda>a b. 0) (supervisionReports sampleDb) ?m) =
      handleBulkExport (\<lambda>s. None) (\<lambda>a b. 0) (supervisionReports sampleDb) ?m"
    using C f(1) by blast
  show ?thesis
    apply (intro conjI)
       apply (rule f(1))
      apply (rule e)
     apply (rule h)
    apply (rule trans [OF p h])
    done
qed

section \<open>Live queries\<close>

lemma deliver_Error_data: "data (deliver (Error e) s) = data s"
  by (simp add: deliver_def)

lemma useLiveQuery_effect_data: "data (useLiveQuery_effect dexie s) = data s"
  by (simp add: useLiveQuery_effect_def)

lemma hook_step_keeps_data:
  "\<forall>r. ev \<noteq> Notified (Next r) \<Longrightarrow> data (hook_step dexie ev s) = data s"
proof (cases ev)
  case (Notified n)
  assume "\<forall>r. ev \<noteq> Notified (Next r)"
  then obtain e where "n = Error e" using Notified by (cases n) auto
  then show ?thesis using Notified by (simp add: hook_step_def deliver_Error_data)
next
  case DependenciesChanged
  then show ?thesis by (simp add: hook_step_def useLiveQuery_effect_data cleanup_def)
qed

lemma fold_hook_step_no_Next:
  "\<forall>ev\<in>set evs. \<forall>r. ev \<noteq> Notified (Next r) \<Longrightarrow>
   data (fold (hook_step dexie) evs s) = data s"
proof (induction evs arbitrary: s)
  case Nil
  then show ?case by simp
next
  case (Cons ev evs)
  have "data (fold (hook_step dexie) evs (hook_step dexie ev s)) = data (hook_step dexie ev s)"
    using Cons.prems by (intro Cons.IH) simp
  moreover have "data (hook_step dexie ev s) = data s"
    using Cons.prems by (intro hook_step_keeps_data) simp
  ultimately show ?case by simp
qed

text \<open>
  Claim C9. The value of a live query is "not yet available" as long as no result has been
  delivered: initially, after the effect has run, and after any events none of which is the
  delivery of a result. An error notification leaves the value as it was, whatever it was
  (so does a change of the dependencies); all an error does on a subscribed query is to add
  one line to the console, whereas a result becomes the value.
\<close>

theorem C9_live_query_errors_keep_value:
  "data (useLiveQuery_initial :: 'a live_query) = None \<and>
   useLiveQuery dexie ([] :: 'a event list) = None \<and>
   ((\<forall>ev\<in>set evs. \<forall>r. ev \<noteq> Notified (Next r)) \<longrightarrow>
      useLiveQuery dexie (evs :: 'a event list) = None) \<and>
   data (deliver (Error e) s) = data (s :: 'a live_query) \<and>
   useLiveQuery dexie (evs @ [Notified (Error e)]) = useLiveQuery dexie evs \<and>
   useLiveQuery dexie (evs @ [DependenciesChanged]) = useLiveQuery dexie evs \<and>
   (subscribed s \<longrightarrow>
      console (deliver (Error e) s) = console s @ [''useLiveQuery error: '' @ e] \<and>
      data (deliver (Next r) s) = Some r)"
proof (intro conjI impI)
  show "data (useLiveQuery_initial :: 'a live_query) = None"
    by (simp add: useLiveQuery_initial_def)
  show "useLiveQuery dexie ([] :: 'a event list) = None"
    by (simp add: useLiveQuery_def useLiveQuery_effect_def useLiveQuery_initial_def)
  show "useLiveQuery dexie evs = None" if "\<forall>ev\<in>set evs. \<forall>r. ev \<noteq> Notified (Next r)"
    using fold_hook_step_no_Next [OF that]
    by (simp add: useLiveQuery_def useLiveQuery_effect_def useLiveQuery_initial_def)
  show "data (deliver (Error e) s) = data s"
    by (rule deliver_Error_data)
  show "useLiveQuery dexie (evs @ [Notified (Error e)]) = useLiveQuery dexie evs"
    by (simp add: useLiveQuery_def hook_step_def deliver_Error_data)
  show "useLiveQuery dexie (evs @ [DependenciesChanged]) = useLiveQuery dexie evs"
    by (simp add: useLiveQuery_def hook_step_def useLiveQuery_effect_data cleanup_def)
  show "console (deliver (Error e) s) = console s @ [''useLiveQuery error: '' @ e]"
    if "subscribed s"
    using that by (simp add: deliver_def)
  show "data (deliver (Next r) s) = Some r" if "subscribed s"
    using that by (simp add: deliver_def)
qed

theorem C9_live_query_errors_keep_value_witness:
  "useLiveQuery True
     [Notified (Error ''boom''), DependenciesChanged, Notified (Error ''bang'') ::
        nat list event] = None \<and>
   subscribed (useLiveQuery_effect True (useLiveQuery_initial :: nat list live_query)) \<and>
   data (deliver (Next [1, 2])
     (useLiveQuery_effect True (useLiveQuery_initial :: nat list live_query))) = Some [1, 2] \<and>
   useLiveQuery True [Notified (Next [1, 2]), Notified (Error ''boom'') :: nat list event] =
     Some [1, 2]"
proof -
  let ?s = "useLiveQuery_effect True (useLiveQuery_initial :: nat list live_query)"
  let ?evs = "[Notified (Error ''boom''), DependenciesChanged, Notified (Error ''bang'') ::
      nat list event]"
  have a: "\<forall>ev\<in>set ?evs. \<forall>r. ev \<noteq> Notified (Next r)"
    by simp
  have b: "subscribed ?s"
    by (simp add: useLiveQuery_effect_def)
  note A = C9_live_query_errors_keep_value [of True ?evs "''boom''" ?s "[1, 2]"]
  note B = C9_live_query_errors_keep_value
    [of True "[Notified (Next [1, 2])]" "''boom''" ?s "[1, 2]"]
  have c: "useLiveQuery True ?evs = None"
    using A a by blast
  have d: "data (deliver (Next [1, 2]) ?s) = Some [1, 2]"
    using A b by blast
  have "useLiveQuery True ([Notified (Next [1, 2])] @ [Notified (Error ''boom'') ::
      nat list event]) = useLiveQuery True [Notified (Next [1, 2])]"
    using B by blast
  then have e: "useLiveQuery True
      [Notified (Next [1, 2]), Notified (Error ''boom'') :: nat list event] = Some [1, 2]"
    using d by (simp add: useLiveQuery_def hook_step_def)
  show ?thesis using b c d e by blast
qed

section \<open>The displayed list is the sorted filtered list\<close>

lemma str_includes_sublist: "str_includes s q \<longleftrightarrow> sublist q s"
  by (induction s) (simp_all add: sublist_Cons_right)

lemma search_filter_spec:
  "(str_includes (toLowerCase (teacherName r)) (toLowerCase q) \<or>
    str_includes (toLowerCase (subject r)) (toLowerCase q)) = spec_matches_search q r"
  by (simp add: spec_matches_search_def str_includes_sublist)

lemma start_filter_spec:
  "num_ge (getTime (date r @ ''T00:00:00'')) (getTime (start @ ''T00:00:00'')) =
     spec_on_or_after getTime start r"
  by (simp add: num_ge_def spec_on_or_after_def midnight_def split: option.splits)

lemma end_filter_spec:
  "num_le (getTime (date r @ ''T00:00:00'')) (getTime (stop @ ''T00:00:00'')) =
     spec_on_or_before getTime stop r"
  by (simp add: num_le_def spec_on_or_before_def midnight_def split: option.splits)

lemma filtered_is_spec_filter:
  "filteredAndSortedReports getTime localeCompare reports m =
     array_sort (compareReports getTime localeCompare m) (filter (spec_keeps getTime m) reports)"
proof -
  have keeps: "spec_keeps getTime m =
      (\<lambda>r. (searchQuery m = [] \<or> spec_matches_search (searchQuery m) r) \<and>
           (filterStartDate m = [] \<or> spec_on_or_after getTime (filterStartDate m) r) \<and>
           (filterEndDate m = [] \<or> spec_on_or_before getTime (filterEndDate m) r))"
    by (rule ext) (simp add: spec_keeps_def)
  show ?thesis
    unfolding filteredAndSortedReports_def Let_def search_filter_spec start_filter_spec
      end_filter_spec keeps
    by (cases "searchQuery m = []"; cases "filterStartDate m = []";
        cases "filterEndDate m = []") (simp_all add: conj_commute conj_left_commute)
qed

lemma count_insert_sorted:
  "count_list (insert_sorted c a bs) y = count_list (a # bs) y"
  by (induction bs) auto

lemma count_array_sort: "count_list (array_sort c xs) y = count_list xs y"
  by (induction xs) (simp_all add: array_sort_def count_insert_sorted)

lemma set_insert_sorted: "set (insert_sorted c a bs) = insert a (set bs)"
  by (induction bs) auto

lemma set_array_sort: "set (array_sort c xs) = set xs"
  by (induction xs) (simp_all add: array_sort_def set_insert_sorted)

text \<open>
  Insertion keeps a list in the order \<open>P\<close> when, on the elements concerned, the
  comparator decides \<open>P\<close> one way or the other and \<open>P\<close> is transitive.
\<close>

lemma sorted_wrt_insert_sorted:
  assumes decides: "\<forall>x\<in>S. \<forall>y\<in>S.
      (sortCompare c x y \<le> 0 \<longrightarrow> P x y) \<and> (\<not> sortCompare c x y \<le> 0 \<longrightarrow> P y x)"
    and transitive: "\<forall>x\<in>S. \<forall>y\<in>S. \<forall>z\<in>S. P x y \<longrightarrow> P y z \<longrightarrow> P x z"
    and "a \<in> S" and "set bs \<subseteq> S" and "sorted_wrt P bs"
  shows "sorted_wrt P (insert_sorted c a bs)"
  using assms(3-5)
proof (induction bs)
  case Nil
  then show ?case by simp
next
  case (Cons b bs)
  have a: "a \<in> S" and b: "b \<in> S" and bs: "set bs \<subseteq> S" using Cons.prems by simp_all
  have after_b: "\<forall>y\<in>set bs. P b y" and tail: "sorted_wrt P bs"
    using Cons.prems(3) by simp_all
  show ?case
  proof (cases "sortCompare c a b \<le> 0")
    case True
    then have ab: "P a b" using decides a b by blast
    have "P a y" if "y \<in> set bs" for y
    proof -
      have "P b y" using after_b that by blast
      moreover have "y \<in> S" using that bs by blast
      ultimately show ?thesis using transitive a b ab by blast
    qed
    then show ?thesis using True ab after_b tail by simp
  next
    case False
    then have ba: "P b a" using decides a b by blast
    have "sorted_wrt P (insert_sorted c a bs)"
      using a bs tail by (rule Cons.IH)
    moreover have "\<forall>y\<in>set (insert_sorted c a bs). P b y"
      using ba after_b by (simp add: set_insert_sorted)
    ultimately show ?thesis using False by simp
  qed
qed

lemma sorted_wrt_array_sort:
  assumes decides: "\<forall>x\<in>S. \<forall>y\<in>S.
      (sortCompare c x y \<le> 0 \<longrightarrow> P x y) \<and> (\<not> sortCompare c x y \<le> 0 \<longrightarrow> P y x)"
    and transitive: "\<forall>x\<in>S. \<forall>y\<in>S. \<forall>z\<in>S. P x y \<longrightarrow> P y z \<longrightarrow> P x z"
    and "set xs \<subseteq> S"
  shows "sorted_wrt P (array_sort c xs)"
  using assms(3)
proof (induction xs)
  case Nil
  then show ?case by (simp add: array_sort_def)
next
  case (Cons a xs)
  have a: "a \<in> S" and xs: "set xs \<subseteq> S" using Cons.prems by simp_all
  have sub: "set (array_sort c xs) \<subseteq> S" using xs by (simp add: set_array_sort)
  have "sorted_wrt P (array_sort c xs)" using xs by (rule Cons.IH)
  then have "sorted_wrt P (insert_sorted c a (array_sort c xs))"
    by (rule sorted_wrt_insert_sorted [OF decides transitive a sub])
  then show ?case by (simp add: array_sort_def)
qed

lemma compareReports_decides:
  assumes "consistent localeCompare"
    and "getTime (date x) \<noteq> None" and "getTime (date y) \<noteq> None"
  shows "(sortCompare (compareReports getTime localeCompare m) x y \<le> 0 \<longrightarrow>
            spec_in_order getTime localeCompare (sortBy m) x y) \<and>
         (\<not> sortCompare (compareReports getTime localeCompare m) x y \<le> 0 \<longrightarrow>
            spec_in_order getTime localeCompare (sortBy m) y x)"
proof -
  from assms(2,3) obtain u v where uv: "getTime (date x) = Some u" "getTime (date y) = Some v"
    by auto
  have total: "localeCompare (teacherName x) (teacherName y) \<le> 0 \<or>
      localeCompare (teacherName y) (teacherName x) \<le> 0"
    using assms(1) unfolding consistent_def by blast
  show ?thesis
  proof (cases "sortBy m = ''date-asc''")
    case True
    then show ?thesis
      by (simp add: sortCompare_def compareReports_def spec_in_order_def uv num_minus_def
          num_le_def)
  next
    case notAsc: False
    show ?thesis
    proof (cases "sortBy m = ''teacher-asc''")
      case True
      then show ?thesis
        using total notAsc
        by (simp add: sortCompare_def compareReports_def spec_in_order_def) blast
    next
      case False
      then show ?thesis
        using notAsc
        by (simp add: sortCompare_def compareReports_def spec_in_order_def uv num_minus_def
            num_ge_def)
    qed
  qed
qed

lemma num_le_trans: "num_le a b \<Longrightarrow> num_le b c \<Longrightarrow> num_le a c"
  by (cases a; cases b; cases c) (simp_all add: num_le_def)

lemma num_ge_trans: "num_ge a b \<Longrightarrow> num_ge b c \<Longrightarrow> num_ge a c"
  by (cases a; cases b; cases c) (simp_all add: num_ge_def)

lemma spec_in_order_trans:
  assumes "consistent localeCompare"
    and xy: "spec_in_order getTime localeCompare k x y"
    and yz: "spec_in_order getTime localeCompare k y z"
  shows "spec_in_order getTime localeCompare k x z"
proof (cases "k = ''date-asc''")
  case True
  then show ?thesis
    using xy yz num_le_trans [of "getTime (date x)" "getTime (date y)" "getTime (date z)"]
    by (simp add: spec_in_order_def)
next
  case notAsc: False
  show ?thesis
  proof (cases "k = ''teacher-asc''")
    case True
    have "localeCompare (teacherName x) (teacherName y) \<le> 0"
      using xy notAsc True by (simp add: spec_in_order_def)
    moreover have "localeCompare (teacherName y) (teacherName z) \<le> 0"
      using yz notAsc True by (simp add: spec_in_order_def)
    ultimately have "localeCompare (teacherName x) (teacherName z) \<le> 0"
      using assms(1) unfolding consistent_def by blast
    then show ?thesis using notAsc True by (simp add: spec_in_order_def)
  next
    case False
    then show ?thesis
      using xy yz notAsc
        num_ge_trans [of "getTime (date x)" "getTime (date y)" "getTime (date z)"]
      by (simp add: spec_in_order_def)
  qed
qed

text \<open>
  Claim C3. For every list of reports and every state of the query, the date range and the
  sort key, the displayed list is the sort of the filtered list: the filter keeps exactly
  the reports that the specification describes (\<open>spec_keeps\<close>: the query, if not empty, is
  a case-insensitive substring of the teacher name or of the subject; the date is not
  before the start date and not after the end date, where set), the sort permutes them, a
  report dated on a boundary date is within the range, and the result is in the order of
  the selected key, given a consistent \<open>localeCompare\<close> and valid dates.
\<close>

theorem C3_displayed_is_sort_of_filter:
  "filteredAndSortedReports getTime localeCompare reports m =
     array_sort (compareReports getTime localeCompare m)
       (filter (spec_keeps getTime m) reports) \<and>
   (\<forall>r. count_list (filteredAndSortedReports getTime localeCompare reports m) r =
        count_list (filter (spec_keeps getTime m) reports) r) \<and>
   (midnight getTime (date x) \<noteq> None \<longrightarrow>
      spec_on_or_after getTime (date x) x \<and> spec_on_or_before getTime (date x) x) \<and>
   (consistent localeCompare \<and> (\<forall>r\<in>set reports. getTime (date r) \<noteq> None) \<longrightarrow>
      sorted_wrt (spec_in_order getTime localeCompare (sortBy m))
        (filteredAndSortedReports getTime localeCompare reports m))"
proof (intro conjI impI allI)
  show eq: "filteredAndSortedReports getTime localeCompare reports m =
     array_sort (compareReports getTime localeCompare m)
       (filter (spec_keeps getTime m) reports)"
    by (rule filtered_is_spec_filter)
  show "count_list (filteredAndSortedReports getTime localeCompare reports m) r =
        count_list (filter (spec_keeps getTime m) reports) r" for r
    by (simp add: eq count_array_sort)
  show "spec_on_or_after getTime (date x) x" if "midnight getTime (date x) \<noteq> None"
    using that by (auto simp: spec_on_or_after_def)
  show "spec_on_or_before getTime (date x) x" if "midnight getTime (date x) \<noteq> None"
    using that by (auto simp: spec_on_or_before_def)
  show "sorted_wrt (spec_in_order getTime localeCompare (sortBy m))
        (filteredAndSortedReports getTime localeCompare reports m)"
    if h: "consistent localeCompare \<and> (\<forall>r\<in>set reports. getTime (date r) \<noteq> None)"
  proof -
    define S where "S = {r \<in> set reports. getTime (date r) \<noteq> None}"
    have decides: "\<forall>x\<in>S. \<forall>y\<in>S.
        (sortCompare (compareReports getTime localeCompare m) x y \<le> 0 \<longrightarrow>
           spec_in_order getTime localeCompare (sortBy m) x y) \<and>
        (\<not> sortCompare (compareReports getTime localeCompare m) x y \<le> 0 \<longrightarrow>
           spec_in_order getTime localeCompare (sortBy m) y x)"
      using h compareReports_decides [of localeCompare getTime _ _ m]
      unfolding S_def by blast
    have transitive: "\<forall>x\<in>S. \<forall>y\<in>S. \<forall>z\<in>S.
        spec_in_order getTime localeCompare (sortBy m) x y \<longrightarrow>
        spec_in_order getTime localeCompare (sortBy m) y z \<longrightarrow>
        spec_in_order getTime localeCompare (sortBy m) x z"
      using h spec_in_order_trans [of localeCompare getTime "sortBy m"] by blast
    have sub: "set (filter (spec_keeps getTime m) reports) \<subseteq> S"
      using h unfolding S_def by auto
    show ?thesis
      unfolding eq by (rule sorted_wrt_array_sort [OF decides transitive sub])
  qed
qed

lemma consistent_sampleLocaleCompare: "consistent sampleLocaleCompare"
  unfolding consistent_def sampleLocaleCompare_def
proof (intro conjI allI impI)
  fix a b :: string
  show "(if a < b then - 1 else if a = b then 0 else 1) \<le> (0::int) \<or>
        (if b < a then - 1 else if b = a then 0 else 1) \<le> (0::int)"
    by (cases "a < b"; cases "a = b") auto
next
  fix a b c :: string
  assume h: "(if a < b then - 1 else if a = b then 0 else 1) \<le> (0::int) \<and>
             (if b < c then - 1 else if b = c then 0 else 1) \<le> (0::int)"
  then have "a \<le> b" and "b \<le> c" by (auto split: if_splits)
  then have "a \<le> c" by (rule order_trans)
  then show "(if a < c then - 1 else if a = c then 0 else 1) \<le> (0::int)" by auto
qed

theorem C3_displayed_is_sort_of_filter_witness:
  "midnight sampleGetTime (date (sampleSupervision ''17'' ''Ann'' ''Math'' ''2024-03-01'')) \<noteq>
     None \<and>
   filteredAndSortedReports sampleGetTime sampleLocaleCompare sampleReports sampleList =
     [sampleSupervision ''18'' ''Bob'' ''Art'' ''2024-02-01'',
      sampleSupervision ''17'' ''Ann'' ''Math'' ''2024-03-01''] \<and>
   filter (spec_keeps sampleGetTime sampleList) sampleReports =
     [sampleSupervision ''17'' ''Ann'' ''Math'' ''2024-03-01'',
      sampleSupervision ''18'' ''Bob'' ''Art'' ''2024-02-01''] \<and>
   sorted_wrt (spec_in_order sampleGetTime sampleLocaleCompare ''date-asc'')
     [sampleSupervision ''18'' ''Bob'' ''Art'' ''2024-02-01'',
      sampleSupervision ''17'' ''Ann'' ''Math'' ''2024-03-01'']"
proof -
  let ?a = "sampleSupervision ''17'' ''Ann'' ''Math'' ''2024-03-01''"
  let ?b = "sampleSupervision ''18'' ''Bob'' ''Art'' ''2024-02-01''"
  have v: "\<forall>r\<in>set sampleReports. sampleGetTime (date r) \<noteq> None"
    by (simp add: sampleReports_def sampleSupervision_def sampleGetTime_def)
  have d: "midnight sampleGetTime (date ?a) \<noteq> None"
    by (simp add: midnight_def sampleSupervision_def sampleGetTime_def)
  have shown: "filteredAndSortedReports sampleGetTime sampleLocaleCompare sampleReports
      sampleList = [?b, ?a]"
    by (simp add: filteredAndSortedReports_def array_sort_def sortCompare_def
        compareReports_def sampleReports_def sampleList_def sampleSupervision_def
        sampleGetTime_def toLowerCase_def num_ge_def num_le_def num_minus_def)
  note C = C3_displayed_is_sort_of_filter [of sampleGetTime sampleLocaleCompare
      sampleReports sampleList ?a]
  have s: "sortBy sampleList = ''date-asc''" by (simp add: sampleList_def)
  have ordered: "sorted_wrt (spec_in_order sampleGetTime sampleLocaleCompare ''date-asc'')
      [?b, ?a]"
    using C consistent_sampleLocaleCompare v unfolding shown s by blast
  have kept: "filter (spec_keeps sampleGetTime sampleList) sampleReports = [?a, ?b]"
    by (simp add: spec_keeps_def spec_matches_search_def spec_on_or_after_def
        spec_on_or_before_def midnight_def sampleReports_def sampleList_def
        sampleSupervision_def sampleGetTime_def toLowerCase_def sublist_code)
  show ?thesis using d shown kept ordered by blast
qed

section \<open>Reading what was written\<close>

lemma read_nat_write [simp]: "read_nat (write_nat n @ r) = Some (n, r)"
  by (induction n) (simp_all add: write_nat_def)

lemma read_int_write [simp]: "read_int (write_int i @ r) = Some (i, r)"
  by (simp add: read_int_def write_int_def andThen_def yield_def)

lemma read_string_write [simp]: "read_string (write_string v @ r) = Some (v, r)"
  by (simp add: read_string_def write_string_def andThen_def)

lemma read_times_write:
  assumes "\<And>v r. p (w v @ r) = Some (v, r)"
  shows "read_times p (length vs) (concat (map w vs) @ r) = Some (vs, r)"
  by (induction vs) (simp_all add: assms)

lemma read_list_write:
  assumes "\<And>v r. p (w v @ r) = Some (v, r)"
  shows "read_list p (write_list w vs @ r) = Some (vs, r)"
  by (simp add: read_list_def write_list_def andThen_def read_times_write [of p w, OF assms])

lemma read_option_write:
  assumes "\<And>v r. p (w v @ r) = Some (v, r)"
  shows "read_option p (write_option w v @ r) = Some (v, r)"
  by (cases v) (simp_all add: read_option_def write_option_def andThen_def yield_def assms)

lemma read_WorkCoverage_write [simp]:
  "read_WorkCoverage (write_WorkCoverage v @ r) = Some (v, r)"
  by (cases v) (simp_all add: read_WorkCoverage_def write_WorkCoverage_def)

lemma read_strings_write [simp]:
  "read_list read_string (write_list write_string vs @ r) = Some (vs, r)"
  by (rule read_list_write) simp

lemma read_Teacher_write [simp]: "read_Teacher (write_Teacher v @ r) = Some (v, r)"
  by (simp add: read_Teacher_def write_Teacher_def andThen_def yield_def)

lemma read_SupervisionReport_write [simp]:
  "read_SupervisionReport (write_SupervisionReport v @ r) = Some (v, r)"
  by (simp add: read_SupervisionReport_def write_SupervisionReport_def andThen_def yield_def)

lemma read_BookCheckingReport_write [simp]:
  "read_BookCheckingReport (write_BookCheckingReport v @ r) = Some (v, r)"
  by (simp add: read_BookCheckingReport_def write_BookCheckingReport_def andThen_def yield_def)

lemma read_WorkCoverageReport_write [simp]:
  "read_WorkCoverageReport (write_WorkCoverageReport v @ r) = Some (v, r)"
  by (simp add: read_WorkCoverageReport_def write_WorkCoverageReport_def andThen_def yield_def)

lemma read_AppSetting_write [simp]: "read_AppSetting (write_AppSetting v @ r) = Some (v, r)"
  by (simp add: read_AppSetting_def write_AppSetting_def andThen_def yield_def)

lemma read_backup_write: "read_backup (write_backup d @ r) = Some (d, r)"
  by (simp add: read_backup_def write_backup_def andThen_def yield_def
      read_option_write read_list_write)

lemma sampleJsonParse_sampleStringify:
  "sampleJsonParse (sampleStringify d) = Some (JsonObject d)"
  using read_backup_write [of d "[]"] by (simp add: sampleJsonParse_def sampleStringify_def)

section \<open>Backup round trip and atomic import\<close>

lemma add_at_end: "\<forall>x\<in>set t. k x < k r \<Longrightarrow> add k r t = Inr (t @ [r])"
  by (induction t) auto

lemma bulkAdd_ascending: "table_ok k (t @ rs) \<Longrightarrow> bulkAdd k rs t = Inr (t @ rs)"
proof (induction rs arbitrary: t)
  case Nil
  then show ?case by simp
next
  case (Cons r rs)
  have below: "\<forall>x\<in>set t. k x < k r"
    using Cons.prems by (simp add: table_ok_def sorted_wrt_append)
  have "table_ok k ((t @ [r]) @ rs)" using Cons.prems by simp
  then have "bulkAdd k rs (t @ [r]) = Inr ((t @ [r]) @ rs)" by (rule Cons.IH)
  then show ?case using add_at_end [OF below] by simp
qed

lemma bulkAddIfPresent_table:
  "table_ok k rs \<Longrightarrow> bulkAddIfPresent k (Some (toArray rs)) (clear t) = Inr rs"
  using bulkAdd_ascending [of k "[]" rs]
  by (simp add: bulkAddIfPresent_def toArray_def clear_def)

lemma importBody_exported:
  assumes "db_ok db"
  shows "importBody
           (JsonObject \<lparr>backup.teachers = Some (toArray (teachers db)),
              backup.supervisionReports = Some (toArray (supervisionReports db)),
              backup.bookCheckingReports = Some (toArray (bookCheckingReports db)),
              backup.workCoverageReports = Some (toArray (workCoverageReports db)),
              backup.settings = Some (toArray (settings db))\<rparr>) target = Inr db"
  using assms by (simp add: importBody_def db_ok_def bulkAddIfPresent_table)

text \<open>
  Claim C1. On a store whose tables have unique keys, and with any \<^verbatim>\<open>JSON.stringify\<close>
  and \<^verbatim>\<open>JSON.parse\<close> such that parsing the text of a document gives the document back,
  importing the file that \<^verbatim>\<open>handleExportData\<close> made of the store into any store (the
  empty one included) succeeds and yields the exported store: each of the five tables has
  the same keys as at export time, indeed the same records.
\<close>

theorem C1_export_import_round_trip:
  assumes "db_ok db"
    and "\<forall>d. parse (stringify d) = Some (JsonObject d)"
  shows "handleImportData parse (Some (snd (fst (handleExportData stringify today db))))
           True target =
           (db, Some (Success
              ''Data imported successfully! The application will now reload.'')) \<and>
         Teacher.id ` set (teachers (fst (handleImportData parse
             (Some (snd (fst (handleExportData stringify today db)))) True target))) =
           Teacher.id ` set (teachers db) \<and>
         Report.id ` set (supervisionReports (fst (handleImportData parse
             (Some (snd (fst (handleExportData stringify today db)))) True target))) =
           Report.id ` set (supervisionReports db) \<and>
         Report.id ` set (bookCheckingReports (fst (handleImportData parse
             (Some (snd (fst (handleExportData stringify today db)))) True target))) =
           Report.id ` set (bookCheckingReports db) \<and>
         Report.id ` set (workCoverageReports (fst (handleImportData parse
             (Some (snd (fst (handleExportData stringify today db)))) True target))) =
           Report.id ` set (workCoverageReports db) \<and>
         key ` set (settings (fst (handleImportData parse
             (Some (snd (fst (handleExportData stringify today db)))) True target))) =
           key ` set (settings db)"
proof -
  let ?exported = "\<lparr>backup.teachers = Some (toArray (teachers db)),
      backup.supervisionReports = Some (toArray (supervisionReports db)),
      backup.bookCheckingReports = Some (toArray (bookCheckingReports db)),
      backup.workCoverageReports = Some (toArray (workCoverageReports db)),
      backup.settings = Some (toArray (settings db))\<rparr>"
  have written: "snd (fst (handleExportData stringify today db)) = stringify ?exported"
    by (simp add: handleExportData_def)
  have parsed: "parse (snd (fst (handleExportData stringify today db))) =
      Some (JsonObject ?exported)"
    unfolding written using assms(2) by blast
  have body: "transaction (importBody (JsonObject ?exported)) target = (Inr (), db)"
    using importBody_exported [OF assms(1), of target] by (simp add: transaction_def)
  have "handleImportData parse (Some (snd (fst (handleExportData stringify today db))))
      True target =
      (db, Some (Success ''Data imported successfully! The application will now reload.''))"
    by (simp add: handleImportData_def parsed body)
  then show ?thesis by simp
qed

theorem C1_export_import_round_trip_witness:
  "db_ok sampleDb \<and>
   sampleJsonParse (sampleStringify sampleBackup) = Some (JsonObject sampleBackup) \<and>
   fst (handleExportData sampleStringify ''2024-03-01'' sampleDb) =
     (''teacher-monitor-backup-2024-03-01.json'', sampleStringify sampleBackup) \<and>
   handleImportData sampleJsonParse (Some (sampleStringify sampleBackup)) True emptyDb =
     (sampleDb, Some (Success
        ''Data imported successfully! The application will now reload.''))"
proof -
  have ok: "db_ok sampleDb"
    by (simp add: db_ok_def table_ok_def sampleDb_def sampleSupervision_def
        sampleBookChecking_def sampleWorkCoverage_def)
  have codec: "\<forall>d. sampleJsonParse (sampleStringify d) = Some (JsonObject d)"
    by (simp add: sampleJsonParse_sampleStringify)
  have f: "fst (handleExportData sampleStringify ''2024-03-01'' sampleDb) =
      (''teacher-monitor-backup-2024-03-01.json'', sampleStringify sampleBackup)"
    by (simp add: handleExportData_def sampleBackup_def toArray_def)
  note R = C1_export_import_round_trip [where db = sampleDb and parse = sampleJsonParse
      and stringify = sampleStringify and today = "''2024-03-01''" and target = emptyDb]
  have "handleImportData sampleJsonParse
      (Some (snd (fst (handleExportData sampleStringify ''2024-03-01'' sampleDb)))) True
      emptyDb =
      (sampleDb, Some (Success
         ''Data imported successfully! The application will now reload.''))"
    using R [OF ok codec] by blast
  then have "handleImportData sampleJsonParse (Some (sampleStringify sampleBackup)) True
      emptyDb =
      (sampleDb, Some (Success
         ''Data imported successfully! The application will now reload.''))"
    by (simp add: f)
  then show ?thesis using ok f sampleJsonParse_sampleStringify [of sampleBackup] by blast
qed

lemma importBody_fails:
  assumes "bulkAddIfPresent Teacher.id (backup.teachers d) [] = Inl e1 \<or>
           bulkAddIfPresent Report.id (backup.supervisionReports d) [] = Inl e2 \<or>
           bulkAddIfPresent Report.id (backup.bookCheckingReports d) [] = Inl e3 \<or>
           bulkAddIfPresent Report.id (backup.workCoverageReports d) [] = Inl e4 \<or>
           bulkAddIfPresent key (backup.settings d) [] = Inl e5"
  shows "\<exists>e. importBody (JsonObject d) db = Inl e"
  using assms by (auto simp: importBody_def clear_def Let_def split: sum.splits)

lemma transaction_rollback: "body db = Inl e \<Longrightarrow> transaction body db = (Inl e, db)"
  by (simp add: transaction_def)

lemma handleImportData_rejected:
  "parse text = Some parsed \<Longrightarrow> importBody parsed db = Inl e \<Longrightarrow>
   handleImportData parse (Some text) True db =
     (db, Some (Failure ''Failed to import data. Please ensure the file is a valid backup.''))"
  by (simp add: handleImportData_def transaction_rollback)

lemma handleImportData_unchanged_or_Success:
  "fst (handleImportData parse chosen confirmed db) = db \<or>
   snd (handleImportData parse chosen confirmed db) =
     Some (Success ''Data imported successfully! The application will now reload.'')"
  by (simp add: handleImportData_def transaction_def split: option.splits sum.splits)

text \<open>
  Claim C2. An import that does not end in success leaves every table as it was: when
  \<^verbatim>\<open>JSON.parse\<close> throws, nothing has been written, and when the parsed value is
  \<^verbatim>\<open>null\<close> or the bulk insert of any of the five tables fails, the transaction rolls
  back the clearing of the tables and the inserts made before the failure. In each case
  the failure feedback is shown.
\<close>

theorem C2_import_is_atomic:
  "(parse bad = None \<longrightarrow>
      handleImportData parse (Some bad) True db =
        (db, Some (Failure
           ''Failed to import data. Please ensure the file is a valid backup.''))) \<and>
   (parse nul = Some JsonNull \<longrightarrow>
      handleImportData parse (Some nul) True db =
        (db, Some (Failure
           ''Failed to import data. Please ensure the file is a valid backup.''))) \<and>
   (parse dup = Some (JsonObject d) \<and>
    (bulkAddIfPresent Teacher.id (backup.teachers d) [] = Inl e1 \<or>
     bulkAddIfPresent Report.id (backup.supervisionReports d) [] = Inl e2 \<or>
     bulkAddIfPresent Report.id (backup.bookCheckingReports d) [] = Inl e3 \<or>
     bulkAddIfPresent Report.id (backup.workCoverageReports d) [] = Inl e4 \<or>
     bulkAddIfPresent key (backup.settings d) [] = Inl e5) \<longrightarrow>
      handleImportData parse (Some dup) True db =
        (db, Some (Failure
           ''Failed to import data. Please ensure the file is a valid backup.''))) \<and>
   (snd (handleImportData parse chosen confirmed db) \<noteq>
      Some (Success ''Data imported successfully! The application will now reload.'') \<longrightarrow>
    fst (handleImportData parse chosen confirmed db) = db)"
proof (intro conjI impI)
  show "handleImportData parse (Some bad) True db =
      (db, Some (Failure ''Failed to import data. Please ensure the file is a valid backup.''))"
    if "parse bad = None"
    using that by (simp add: handleImportData_def)
  show "handleImportData parse (Some nul) True db =
      (db, Some (Failure ''Failed to import data. Please ensure the file is a valid backup.''))"
    if "parse nul = Some JsonNull"
  proof -
    have "importBody JsonNull db = Inl TypeError" by (simp add: importBody_def)
    then show ?thesis
      using that handleImportData_rejected [of parse nul JsonNull db TypeError] by simp
  qed
  show "handleImportData parse (Some dup) True db =
      (db, Some (Failure ''Failed to import data. Please ensure the file is a valid backup.''))"
    if h: "parse dup = Some (JsonObject d) \<and>
      (bulkAddIfPresent Teacher.id (backup.teachers d) [] = Inl e1 \<or>
       bulkAddIfPresent Report.id (backup.supervisionReports d) [] = Inl e2 \<or>
       bulkAddIfPresent Report.id (backup.bookCheckingReports d) [] = Inl e3 \<or>
       bulkAddIfPresent Report.id (backup.workCoverageReports d) [] = Inl e4 \<or>
       bulkAddIfPresent key (backup.settings d) [] = Inl e5)"
  proof -
    from h obtain e where "importBody (JsonObject d) db = Inl e"
      using importBody_fails [of d e1 e2 e3 e4 e5 db] by blast
    then show ?thesis
      using h handleImportData_rejected [of parse dup "JsonObject d" db e] by simp
  qed
  show "fst (handleImportData parse chosen confirmed db) = db"
    if "snd (handleImportData parse chosen confirmed db) \<noteq>
      Some (Success ''Data imported successfully! The application will now reload.'')"
    using that handleImportData_unchanged_or_Success [of parse chosen confirmed db] by blast
qed

theorem C2_import_is_atomic_witness:
  "sampleParse ''not json'' = None \<and>
   sampleParse ''null'' = Some JsonNull \<and>
   sampleParse ''{duplicate}'' = Some (JsonObject duplicateBackup) \<and>
   bulkAddIfPresent Report.id (backup.supervisionReports duplicateBackup) [] =
     Inl (StoreError DuplicateKey) \<and>
   handleImportData sampleParse (Some ''not json'') True sampleDb =
     (sampleDb, Some (Failure
        ''Failed to import data. Please ensure the file is a valid backup.'')) \<and>
   handleImportData sampleParse (Some ''null'') True sampleDb =
     (sampleDb, Some (Failure
        ''Failed to import data. Please ensure the file is a valid backup.'')) \<and>
   handleImportData sampleParse (Some ''{duplicate}'') True sampleDb =
     (sampleDb, Some (Failure
        ''Failed to import data. Please ensure the file is a valid backup.'')) \<and>
   fst (handleImportData sampleParse (Some ''{duplicate}'') True sampleDb) = sampleDb"
proof -
  have a: "sampleParse ''not json'' = None" by (simp add: sampleParse_def)
  have b: "sampleParse ''null'' = Some JsonNull" by (simp add: sampleParse_def)
  have c: "sampleParse ''{duplicate}'' = Some (JsonObject duplicateBackup)"
    by (simp add: sampleParse_def)
  have d: "bulkAddIfPresent Report.id (backup.supervisionReports duplicateBackup) [] =
      Inl (StoreError DuplicateKey)"
    by (simp add: bulkAddIfPresent_def duplicateBackup_def sampleSupervision_def)
  note A = C2_import_is_atomic [where parse = sampleParse and bad = "''not json''"
      and nul = "''null''" and dup = "''{duplicate}''" and d = duplicateBackup
      and ?e2.0 = "StoreError DuplicateKey" and db = sampleDb
      and chosen = "Some ''{duplicate}''" and confirmed = True]
  have r1: "handleImportData sampleParse (Some ''not json'') True sampleDb =
      (sampleDb, Some (Failure
        ''Failed to import data. Please ensure the file is a valid backup.''))"
    using A a by blast
  have r2: "handleImportData sampleParse (Some ''null'') True sampleDb =
      (sampleDb, Some (Failure
        ''Failed to import data. Please ensure the file is a valid backup.''))"
    using A b by blast
  have r3: "handleImportData sampleParse (Some ''{duplicate}'') True sampleDb =
      (sampleDb, Some (Failure
        ''Failed to import data. Please ensure the file is a valid backup.''))"
    using A c d by blast
  have "snd (handleImportData sampleParse (Some ''{duplicate}'') True sampleDb) \<noteq>
      Some (Success ''Data imported successfully! The application will now reload.'')"
    by (simp add: r3)
  then have r4: "fst (handleImportData sampleParse (Some ''{duplicate}'') True sampleDb) =
      sampleDb"
    using A by blast
  show ?thesis using a b c d r1 r2 r3 r4 by blast
qed

end
